theory Spec2Isabelle
  imports Complex_Main "HOL-Library.AList"
begin

text \<open>
  The tool-invocation layer: \<open>NativeToolCallParser.parseToolCall\<close>, which turns a native
  call into a \<open>ToolUse\<close>; \<open>BaseTool.handle\<close>, which dispatches a \<open>ToolUse\<close> to
  \<open>handlePartial\<close> or, after resolving the parameters, to \<open>execute\<close>; and the
  \<open>parseLegacy\<close> methods of \<open>ListFilesTool\<close>, \<open>AttemptCompletionTool\<close> and
  \<open>NewTaskTool\<close>, with the message un-escaping of \<open>NewTaskTool.execute\<close>.
\<close>

section \<open>JavaScript values\<close>

text \<open>
  Values as the running program has them. A number is an IEEE double, of which only the
  class matters here (zero and \<open>NaN\<close> are falsy); the finite ones are kept as rationals.
  An object is the list of its own enumerable properties in the order \<open>Object.entries\<close>
  lists them; a string is a list of characters.
\<close>

datatype js_number = NaN | Infinity | NegInfinity | Finite rat

datatype jsval =
    JUndefined
  | JNull
  | JBool bool
  | JNum js_number
  | JStr string
  | JArr "jsval list"
  | JObj "(string \<times> jsval) list"

text \<open>
  A thrown value: one of the \<open>Error\<close> objects, with its message, or any other value.
\<close>

datatype js_exn =
    Error string
  | TypeError string
  | SyntaxError string
  | RangeError string
  | Thrown jsval

text \<open>
  The built-in functions of the language that the code calls are parameters of the model,
  each with \<open>Inl\<close> for the exception it may throw: \<open>JSON.parse\<close>,
  \<open>JSON.stringify\<close> (which throws on a value nested too deep for the call stack, among
  others), \<open>String\<close> (which throws when a value has no primitive conversion), and
  \<open>parseInt\<close> with its radix, which never throws.
\<close>

record js_builtins =
  JSON_parse :: "string \<Rightarrow> js_exn + jsval"
  JSON_stringify :: "jsval \<Rightarrow> js_exn + string"
  String_of :: "jsval \<Rightarrow> js_exn + string"
  parseInt :: "string \<Rightarrow> nat \<Rightarrow> js_number"

text \<open>
  \<open>error instanceof Error ? error.message : String(error)\<close>: the message of an
  \<open>Error\<close>, and for any other value its string conversion, which may throw itself.
\<close>

fun error_message :: "js_builtins \<Rightarrow> js_exn \<Rightarrow> js_exn + string" where
  "error_message b (Error m) = Inr m"
| "error_message b (TypeError m) = Inr m"
| "error_message b (SyntaxError m) = Inr m"
| "error_message b (RangeError m) = Inr m"
| "error_message b (Thrown v) = String_of b v"

text \<open>\<open>error instanceof Error\<close>: whether a thrown value is one of the \<open>Error\<close> objects.\<close>

fun instanceof_Error :: "js_exn \<Rightarrow> bool" where
  "instanceof_Error (Thrown v) = False"
| "instanceof_Error e = True"

text \<open>
  What the built-in functions of the language throw are \<open>Error\<close> objects
  (\<open>SyntaxError\<close>, \<open>TypeError\<close>, \<open>RangeError\<close>). Of a record of built-ins, this
  is the property:
\<close>

definition throws_Errors :: "js_builtins \<Rightarrow> bool" where
  "throws_Errors b \<longleftrightarrow>
     (\<forall>s e. JSON_parse b s = Inl e \<longrightarrow> instanceof_Error e)
   \<and> (\<forall>x e. JSON_stringify b x = Inl e \<longrightarrow> instanceof_Error e)
   \<and> (\<forall>x e. String_of b x = Inl e \<longrightarrow> instanceof_Error e)"

text \<open>Truthiness, as \<open>if (v)\<close> and \<open>v && w\<close> test it.\<close>

fun truthy :: "jsval \<Rightarrow> bool" where
  "truthy JUndefined = False"
| "truthy JNull = False"
| "truthy (JBool b) = b"
| "truthy (JNum n) = (n \<noteq> NaN \<and> n \<noteq> Finite 0)"
| "truthy (JStr s) = (s \<noteq> [])"
| "truthy (JArr xs) = True"
| "truthy (JObj kvs) = True"

fun isArray :: "jsval \<Rightarrow> bool" where
  "isArray (JArr xs) = True"
| "isArray v = False"

text \<open>
  Reading a property \<open>args.k\<close>. The parser reads fixed keys only (\<open>files\<close>, \<open>path\<close>,
  \<open>result\<close>, ...), none of which a prototype defines, so on an object the own properties
  decide and on a primitive or an array the result is \<open>undefined\<close>. On \<open>null\<close> the read
  would throw; the parser never gets there, since \<open>Object.entries\<close> has thrown before.
\<close>

fun get_prop :: "jsval \<Rightarrow> string \<Rightarrow> jsval" where
  "get_prop (JObj kvs) k = (case map_of kvs k of Some v \<Rightarrow> v | None \<Rightarrow> JUndefined)"
| "get_prop v k = JUndefined"

text \<open>Decimal digits of a natural number: the keys of an array's elements.\<close>

fun digits_of_nat :: "nat \<Rightarrow> string" where
  "digits_of_nat n =
     (if n < 10 then [char_of (48 + n)]
      else digits_of_nat (n div 10) @ [char_of (48 + n mod 10)])"

text \<open>
  \<open>Object.entries\<close>: a \<open>TypeError\<close> on \<open>null\<close> and \<open>undefined\<close>, the own properties
  of an object, the indexed elements of an array, the characters of a string, nothing for a
  number or a boolean.
\<close>

fun Object_entries :: "jsval \<Rightarrow> js_exn + (string \<times> jsval) list" where
  "Object_entries JUndefined = Inl (TypeError ''Cannot convert undefined or null to object'')"
| "Object_entries JNull = Inl (TypeError ''Cannot convert undefined or null to object'')"
| "Object_entries (JObj kvs) = Inr kvs"
| "Object_entries (JArr xs) = Inr (zip (map digits_of_nat [0..<length xs]) xs)"
| "Object_entries (JStr s) = Inr (zip (map digits_of_nat [0..<length s]) (map (\<lambda>c. JStr [c]) s))"
| "Object_entries (JNum n) = Inr []"
| "Object_entries (JBool b) = Inr []"

section \<open>The tool invocation\<close>

text \<open>
  \<open>ToolUse\<close> of \<open>shared/tools\<close>: \<open>params\<close> is an object with string values, kept as
  an association list in insertion order; \<open>nativeArgs\<close> is \<open>None\<close> when it is
  \<open>undefined\<close>, and \<open>Some\<close> of its value, which is then not \<open>undefined\<close>,
  otherwise.
\<close>

record 'a ToolUse =
  type :: string
  name :: string
  params :: "(string \<times> string) list"
  partial :: bool
  nativeArgs :: "'a option"

text \<open>The native call \<open>{ id, name, arguments }\<close> that \<open>parseToolCall\<close> receives.\<close>

record toolCall =
  toolCall_id :: string
  toolCall_name :: string
  toolCall_arguments :: string

section \<open>NativeToolCallParser.parseToolCall\<close>

text \<open>
  The loop over \<open>Object.entries(args)\<close>: the \<open>files\<close> key of a \<open>read_file\<close> call
  and every key outside \<open>toolParamNames\<close> are skipped; every other value is stored under
  its key, as it is when it is a string and as \<open>JSON.stringify\<close> gives it otherwise. When
  \<open>JSON.stringify\<close> throws, the loop ends with its exception.
\<close>

definition stringValue :: "js_builtins \<Rightarrow> jsval \<Rightarrow> js_exn + string" where
  "stringValue b v = (case v of JStr s \<Rightarrow> Inr s | _ \<Rightarrow> JSON_stringify b v)"

fun synthesizeParams ::
  "js_builtins \<Rightarrow> string list \<Rightarrow> string \<Rightarrow> (string \<times> jsval) list \<Rightarrow>
   (string \<times> string) list \<Rightarrow> js_exn + (string \<times> string) list" where
  "synthesizeParams b toolParamNames nm [] ps = Inr ps"
| "synthesizeParams b toolParamNames nm ((key, v) # rest) ps =
     (if nm = ''read_file'' \<and> key = ''files'' then synthesizeParams b toolParamNames nm rest ps
      else if key \<notin> set toolParamNames then synthesizeParams b toolParamNames nm rest ps
      else
        (case stringValue b v of
           Inl e \<Rightarrow> Inl e
         | Inr sv \<Rightarrow> synthesizeParams b toolParamNames nm rest (AList.update key sv ps)))"

text \<open>
  The \<open>switch\<close> on the tool name that builds \<open>nativeArgs\<close>. In it only the
  conversion of \<open>line\<close> for \<open>insert_content\<close> can throw.
\<close>

definition buildNativeArgs :: "js_builtins \<Rightarrow> string \<Rightarrow> jsval \<Rightarrow> js_exn + jsval option" where
  "buildNativeArgs b nm args =
    (if nm = ''read_file'' then
       (if truthy (get_prop args ''files'') \<and> isArray (get_prop args ''files'')
        then Inr (Some (get_prop args ''files''))
        else if truthy (get_prop args ''path'')
        then Inr (Some (JArr [JObj [(''path'', get_prop args ''path''), (''lineRanges'', JArr [])]]))
        else Inr None)
     else if nm = ''attempt_completion'' then
       (if truthy (get_prop args ''result'')
        then Inr (Some (JObj [(''result'', get_prop args ''result'')]))
        else Inr None)
     else if nm = ''execute_command'' then
       (if truthy (get_prop args ''command'')
        then Inr (Some (JObj [(''command'', get_prop args ''command''),
                              (''cwd'', get_prop args ''cwd'')]))
        else Inr None)
     else if nm = ''insert_content'' then
       (if get_prop args ''path'' \<noteq> JUndefined \<and> get_prop args ''line'' \<noteq> JUndefined
           \<and> get_prop args ''content'' \<noteq> JUndefined
        then
          (case get_prop args ''line'' of
             JNum n \<Rightarrow>
               Inr (Some (JObj [(''path'', get_prop args ''path''), (''line'', JNum n),
                                (''content'', get_prop args ''content'')]))
           | v \<Rightarrow>
               (case String_of b v of
                  Inl e \<Rightarrow> Inl e
                | Inr s \<Rightarrow>
                    Inr (Some (JObj [(''path'', get_prop args ''path''),
                                     (''line'', JNum (parseInt b s 10)),
                                     (''content'', get_prop args ''content'')]))))
        else Inr None)
     else if nm = ''apply_diff'' then
       (if get_prop args ''path'' \<noteq> JUndefined \<and> get_prop args ''diff'' \<noteq> JUndefined
        then Inr (Some (JObj [(''path'', get_prop args ''path''), (''diff'', get_prop args ''diff'')]))
        else Inr None)
     else if nm = ''ask_followup_question'' then
       (if get_prop args ''question'' \<noteq> JUndefined \<and> get_prop args ''follow_up'' \<noteq> JUndefined
        then Inr (Some (JObj [(''question'', get_prop args ''question''),
                              (''follow_up'', get_prop args ''follow_up'')]))
        else Inr None)
     else if nm = ''browser_action'' then
       (if get_prop args ''action'' \<noteq> JUndefined
        then Inr (Some (JObj [(''action'', get_prop args ''action''), (''url'', get_prop args ''url''),
                              (''coordinate'', get_prop args ''coordinate''),
                              (''size'', get_prop args ''size''), (''text'', get_prop args ''text'')]))
        else Inr None)
     else if nm = ''codebase_search'' then
       (if get_prop args ''query'' \<noteq> JUndefined
        then Inr (Some (JObj [(''query'', get_prop args ''query''), (''path'', get_prop args ''path'')]))
        else Inr None)
     else if nm = ''fetch_instructions'' then
       (if get_prop args ''task'' \<noteq> JUndefined
        then Inr (Some (JObj [(''task'', get_prop args ''task'')]))
        else Inr None)
     else Inr None)"

text \<open>
  The body of the \<open>try\<close> block after \<open>JSON.parse\<close>: the entries, the legacy parameters,
  the native arguments, the result.
\<close>

definition toolUseOfArgs ::
  "js_builtins \<Rightarrow> string list \<Rightarrow> string \<Rightarrow> jsval \<Rightarrow> js_exn + jsval ToolUse" where
  "toolUseOfArgs b toolParamNames nm args =
    (case Object_entries args of
       Inl e \<Rightarrow> Inl e
     | Inr entries \<Rightarrow>
         (case synthesizeParams b toolParamNames nm entries [] of
            Inl e \<Rightarrow> Inl e
          | Inr ps \<Rightarrow>
              (case buildNativeArgs b nm args of
                 Inl e \<Rightarrow> Inl e
               | Inr na \<Rightarrow>
                   Inr \<lparr>type = ''tool_use'', name = nm, params = ps,
                        partial = False, nativeArgs = na\<rparr>)))"

text \<open>
  The \<open>catch\<close> block of \<open>parseToolCall\<close>, in both versions: its second log line
  evaluates \<open>error instanceof Error ? error.message : String(error)\<close>, whose exception
  would reach the caller; then it returns \<open>null\<close>.
\<close>

definition failedToParse :: "js_builtins \<Rightarrow> js_exn \<Rightarrow> js_exn + 'a option" where
  "failedToParse b error =
    (case error_message b error of
       Inl e \<Rightarrow> Inl e
     | Inr details \<Rightarrow> Inr None)"

text \<open>
  \<open>parseToolCall\<close>. The result is \<open>Inl\<close> for an exception that reaches the caller,
  \<open>Inr None\<close> for \<open>null\<close>. The other \<open>console\<close> calls, which take values as
  they are and do not throw, are left out. \<open>toolNames\<close> and
  \<open>toolParamNames\<close> are the two closed enumerations, defined outside these sources.
\<close>

definition parseToolCall ::
  "js_builtins \<Rightarrow> string list \<Rightarrow> string list \<Rightarrow> toolCall \<Rightarrow> js_exn + jsval ToolUse option" where
  "parseToolCall b toolNames toolParamNames c =
    (if toolCall_name c \<notin> set toolNames then Inr None
     else
       (case JSON_parse b (toolCall_arguments c) of
          Inl e \<Rightarrow> failedToParse b e
        | Inr args \<Rightarrow>
            (case toolUseOfArgs b toolParamNames (toolCall_name c) args of
               Inl e \<Rightarrow> failedToParse b e
             | Inr u \<Rightarrow> Inr (Some u))))"

text \<open>
  The \<open>parseToolCall\<close> of \<open>src/core/assistant-message/NativeToolCallParser.ts\<close>, which
  builds no \<open>nativeArgs\<close>: the same name test and decoding, the loop without the
  \<open>read_file\<close> case, and a result with the four other fields only.
\<close>

fun synthesizeParams_untyped ::
  "js_builtins \<Rightarrow> string list \<Rightarrow> (string \<times> jsval) list \<Rightarrow>
   (string \<times> string) list \<Rightarrow> js_exn + (string \<times> string) list" where
  "synthesizeParams_untyped b toolParamNames [] ps = Inr ps"
| "synthesizeParams_untyped b toolParamNames ((key, v) # rest) ps =
     (if key \<notin> set toolParamNames then synthesizeParams_untyped b toolParamNames rest ps
      else
        (case stringValue b v of
           Inl e \<Rightarrow> Inl e
         | Inr sv \<Rightarrow> synthesizeParams_untyped b toolParamNames rest (AList.update key sv ps)))"

definition parseToolCall_untyped ::
  "js_builtins \<Rightarrow> string list \<Rightarrow> string list \<Rightarrow> toolCall \<Rightarrow> js_exn + jsval ToolUse option" where
  "parseToolCall_untyped b toolNames toolParamNames c =
    (if toolCall_name c \<notin> set toolNames then Inr None
     else
       (case JSON_parse b (toolCall_arguments c) of
          Inl e \<Rightarrow> failedToParse b e
        | Inr args \<Rightarrow>
            (case Object_entries args of
               Inl e \<Rightarrow> failedToParse b e
             | Inr entries \<Rightarrow>
                 (case synthesizeParams_untyped b toolParamNames entries [] of
                    Inl e \<Rightarrow> failedToParse b e
                  | Inr ps \<Rightarrow>
                      Inr (Some \<lparr>type = ''tool_use'', name = toolCall_name c, params = ps,
                                 partial = False, nativeArgs = None\<rparr>)))))"

section \<open>BaseTool.handle\<close>

text \<open>
  A tool is its name and its three methods. \<open>cline\<close>, the task, is the state \<open>'s\<close>
  that every call may change; every call may throw (\<open>Inl\<close>). The callbacks that
  \<open>execute\<close> receives are bound into it. \<open>'p\<close> is \<open>ToolParams<TName>\<close>, which is
  also the type of \<open>nativeArgs\<close>: the cast in \<open>handle\<close> converts nothing. When the
  program runs, the parameters are JavaScript values, and \<open>handle\<close> is modelled on those.
\<close>

record ('p, 's) BaseTool =
  tool_name :: string
  parseLegacy :: "(string \<times> string) list \<Rightarrow> 's \<Rightarrow> (js_exn + 'p) \<times> 's"
  execute :: "'p \<Rightarrow> 's \<Rightarrow> (js_exn + unit) \<times> 's"
  handlePartial :: "'p ToolUse \<Rightarrow> 's \<Rightarrow> (js_exn + unit) \<times> 's"

text \<open>The \<open>handlePartial\<close> that \<open>BaseTool\<close> provides does nothing.\<close>

definition default_handlePartial :: "'p ToolUse \<Rightarrow> 's \<Rightarrow> (js_exn + unit) \<times> 's" where
  "default_handlePartial block s = (Inr (), s)"

text \<open>The two callbacks \<open>handle\<close> itself calls.\<close>

record 's ToolCallbacks =
  handleError :: "string \<Rightarrow> js_exn \<Rightarrow> 's \<Rightarrow> (js_exn + unit) \<times> 's"
  pushToolResult :: "string \<Rightarrow> 's \<Rightarrow> (js_exn + unit) \<times> 's"

text \<open>
  The \<open>try\<close> block of \<open>handle\<close>. With \<open>nativeArgs\<close> not \<open>undefined\<close>, the log
  line evaluates \<open>JSON.stringify(block.nativeArgs, null, 2)\<close>, which may throw, and the
  parameters are \<open>nativeArgs\<close>; otherwise they are \<open>parseLegacy(block.params)\<close>.
  The text that \<open>JSON.stringify\<close> returns goes to the console only, so its indentation
  arguments are left out.
\<close>

definition resolveParams ::
  "js_builtins \<Rightarrow> (jsval, 's) BaseTool \<Rightarrow> jsval ToolUse \<Rightarrow> 's \<Rightarrow> (js_exn + jsval) \<times> 's" where
  "resolveParams b t block s =
    (case nativeArgs block of
       Some a \<Rightarrow>
         (case JSON_stringify b a of
            Inl e \<Rightarrow> (Inl e, s)
          | Inr logged_text \<Rightarrow> (Inr a, s))
     | None \<Rightarrow> parseLegacy t (params block) s)"

text \<open>
  \<open>handle\<close>. In the \<open>catch\<close> block the message is built first, and an exception of
  \<open>String(error)\<close> leaves \<open>handle\<close>. After the \<open>try\<close>, the log line evaluates
  \<open>JSON.stringify(params, null, 2)\<close> outside of any \<open>try\<close>, so its exception leaves
  \<open>handle\<close> too, before \<open>execute\<close>. The first log line serialises a string and two
  booleans and cannot throw; the \<open>console\<close> calls themselves are left out.
\<close>

definition handle ::
  "js_builtins \<Rightarrow> (jsval, 's) BaseTool \<Rightarrow> 's ToolCallbacks \<Rightarrow> jsval ToolUse \<Rightarrow> 's \<Rightarrow>
   (js_exn + unit) \<times> 's" where
  "handle b t callbacks block s =
    (if partial block then handlePartial t block s
     else
       (case resolveParams b t block s of
          (Inl error, s1) \<Rightarrow>
            (case error_message b error of
               Inl e \<Rightarrow> (Inl e, s1)
             | Inr reason \<Rightarrow>
                 (let errorMessage =
                        ''Failed to parse '' @ tool_name t @ '' parameters: '' @ reason
                  in case handleError callbacks (''parsing '' @ tool_name t @ '' args'')
                            (Error errorMessage) s1 of
                       (Inl e, s2) \<Rightarrow> (Inl e, s2)
                     | (Inr u, s2) \<Rightarrow>
                         pushToolResult callbacks (''<error>'' @ errorMessage @ ''</error>'') s2))
        | (Inr p, s1) \<Rightarrow>
            (case JSON_stringify b p of
               Inl e \<Rightarrow> (Inl e, s1)
             | Inr logged_text \<Rightarrow> execute t p s1)))"

subsection \<open>Recording the calls\<close>

text \<open>
  To say which methods and callbacks \<open>handle\<close> calls, each of them is wrapped so that it
  first appends its call to a log kept beside the state and then behaves as before.
\<close>

datatype 'p call =
    Called_handlePartial "'p ToolUse"
  | Called_parseLegacy "(string \<times> string) list"
  | Called_execute 'p
  | Called_handleError string js_exn
  | Called_pushToolResult string

definition logged :: "'p call \<Rightarrow> ('s \<Rightarrow> 'r \<times> 's) \<Rightarrow> 'p call list \<times> 's \<Rightarrow> 'r \<times> 'p call list \<times> 's" where
  "logged c f = (\<lambda>(cs, s). case f s of (r, s') \<Rightarrow> (r, (cs @ [c], s')))"

definition recorded :: "('p, 's) BaseTool \<Rightarrow> ('p, 'p call list \<times> 's) BaseTool" where
  "recorded t =
    \<lparr>tool_name = tool_name t,
     parseLegacy = (\<lambda>ps. logged (Called_parseLegacy ps) (parseLegacy t ps)),
     execute = (\<lambda>p. logged (Called_execute p) (execute t p)),
     handlePartial = (\<lambda>block. logged (Called_handlePartial block) (handlePartial t block))\<rparr>"

definition recorded_callbacks :: "'s ToolCallbacks \<Rightarrow> ('p call list \<times> 's) ToolCallbacks" where
  "recorded_callbacks cb =
    \<lparr>handleError = (\<lambda>action e. logged (Called_handleError action e) (handleError cb action e)),
     pushToolResult = (\<lambda>content. logged (Called_pushToolResult content) (pushToolResult cb content))\<rparr>"

text \<open>The calls made by one run of \<open>handle\<close>, and whether it returned normally.\<close>

definition calls_of :: "'r \<times> 'p call list \<times> 's \<Rightarrow> 'p call list" where
  "calls_of x = fst (snd x)"

text \<open>
  What the \<open>catch\<close> block of \<open>handle\<close> does on the recorded callbacks, for the
  exception \<open>e\<close>: used to state the lemmas below.
\<close>

definition reported ::
  "js_builtins \<Rightarrow> (jsval, 's) BaseTool \<Rightarrow> 's ToolCallbacks \<Rightarrow> js_exn \<Rightarrow> jsval call list \<times> 's \<Rightarrow>
   (js_exn + unit) \<times> jsval call list \<times> 's" where
  "reported b t cb e = (\<lambda>(cs, s1).
     case error_message b e of
       Inl e' \<Rightarrow> (Inl e', (cs, s1))
     | Inr reason \<Rightarrow>
         (let m = ''Failed to parse '' @ tool_name t @ '' parameters: '' @ reason;
              a = ''parsing '' @ tool_name t @ '' args''
          in case handleError cb a (Error m) s1 of
               (Inl e', s2) \<Rightarrow> (Inl e', (cs @ [Called_handleError a (Error m)], s2))
             | (Inr u, s2) \<Rightarrow>
                 (fst (pushToolResult cb (''<error>'' @ m @ ''</error>'') s2),
                  (cs @ [Called_handleError a (Error m),
                         Called_pushToolResult (''<error>'' @ m @ ''</error>'')],
                   snd (pushToolResult cb (''<error>'' @ m @ ''</error>'') s2)))))"

section \<open>Concrete tools\<close>

text \<open>\<open>params.k || ""\<close> on a map whose values are strings.\<close>

fun or_empty :: "string option \<Rightarrow> string" where
  "or_empty None = []"
| "or_empty (Some s) = (if s = [] then [] else s)"

text \<open>
  \<open>toLowerCase\<close> on the letters A to Z. Only the comparison with \<open>"true"\<close> uses it, and
  no character outside A to Z lower-cases to one of t, r, u, e.
\<close>

definition toLowerCase :: "string \<Rightarrow> string" where
  "toLowerCase s =
     map (\<lambda>c. if 65 \<le> (of_char c :: nat) \<and> (of_char c :: nat) \<le> 90
              then char_of ((of_char c :: nat) + 32) else c) s"

record ListFilesParams =
  path :: string
  recursive :: "bool option"

definition ListFilesTool_parseLegacy :: "(string \<times> string) list \<Rightarrow> js_exn + ListFilesParams" where
  "ListFilesTool_parseLegacy ps =
    (let recursiveRaw = map_of ps ''recursive'';
         recursive = (map_option toLowerCase recursiveRaw = Some ''true'')
     in Inr \<lparr>path = or_empty (map_of ps ''path''), recursive = Some recursive\<rparr>)"

record AttemptCompletionParams =
  result :: string
  command :: "string option"

definition AttemptCompletionTool_parseLegacy ::
  "(string \<times> string) list \<Rightarrow> js_exn + AttemptCompletionParams" where
  "AttemptCompletionTool_parseLegacy ps =
     Inr \<lparr>result = or_empty (map_of ps ''result''), command = map_of ps ''command''\<rparr>"

record NewTaskParams =
  mode :: string
  message :: string
  todos :: "string option"

definition NewTaskTool_parseLegacy :: "(string \<times> string) list \<Rightarrow> js_exn + NewTaskParams" where
  "NewTaskTool_parseLegacy ps =
     Inr \<lparr>mode = or_empty (map_of ps ''mode''), message = or_empty (map_of ps ''message''),
          todos = map_of ps ''todos''\<rparr>"

text \<open>
  The \<open>message.replace\<close> of \<open>NewTaskTool.execute\<close>, with the \<open>g\<close> flag: from left to
  right, each occurrence of two backslashes and an at sign becomes one backslash and the at
  sign, and the search goes on after the replaced text.
\<close>

definition backslash :: char where
  "backslash = CHR 0x5C"



section \<open>A runtime to evaluate with\<close>

text \<open>
  Definitions of the four built-ins, to run the parser on concrete calls. The reader takes
  the JSON grammar without \<open>u\<close> escapes in strings and keeps numbers exact; a repeated key
  keeps its first place and its last value. The writer and the string conversion print whole
  numbers as JavaScript does. The writer throws a \<open>RangeError\<close> on a value nested deeper
  than \<open>stack_limit\<close>, which stands for the call stack of the engine.
\<close>

definition is_ws :: "char \<Rightarrow> bool" where
  "is_ws c = ((of_char c :: nat) \<in> {9, 10, 13, 32})"

fun skip_ws :: "string \<Rightarrow> string" where
  "skip_ws [] = []"
| "skip_ws (c # cs) = (if is_ws c then skip_ws cs else c # cs)"

definition is_digit :: "char \<Rightarrow> bool" where
  "is_digit c = (48 \<le> (of_char c :: nat) \<and> (of_char c :: nat) \<le> 57)"

fun read_digits :: "string \<Rightarrow> nat \<Rightarrow> nat \<times> string" where
  "read_digits [] acc = (acc, [])"
| "read_digits (c # cs) acc =
     (if is_digit c then read_digits cs (10 * acc + ((of_char c :: nat) - 48)) else (acc, c # cs))"

fun read_string :: "string \<Rightarrow> string \<Rightarrow> (string \<times> string) option" where
  "read_string [] acc = None"
| "read_string (c # cs) acc =
     (if c = CHR 0x22 then Some (rev acc, cs)
      else if c = backslash then
        (case cs of
           [] \<Rightarrow> None
         | (d # ds) \<Rightarrow>
             (if d = CHR 0x22 \<or> d = backslash \<or> d = CHR ''/'' then read_string ds (d # acc)
              else if d = CHR ''n'' then read_string ds (CHR 0x0A # acc)
              else if d = CHR ''t'' then read_string ds (CHR 0x09 # acc)
              else if d = CHR ''r'' then read_string ds (CHR 0x0D # acc)
              else if d = CHR ''b'' then read_string ds (CHR 0x08 # acc)
              else if d = CHR ''f'' then read_string ds (CHR 0x0C # acc)
              else None))
      else if (of_char c :: nat) < 32 then None
      else read_string cs (c # acc))"

fun read_fraction :: "string \<Rightarrow> (rat \<times> string) option" where
  "read_fraction [] = Some (0, [])"
| "read_fraction (c # cs) =
     (if c \<noteq> CHR ''.'' then Some (0, c # cs)
      else
        (case cs of
           [] \<Rightarrow> None
         | d # r \<Rightarrow>
             if \<not> is_digit d then None
             else
               (let (m, rest) = read_digits cs 0
                in Some (of_nat m / 10 ^ (length cs - length rest), rest))))"

fun read_exponent :: "string \<Rightarrow> (int \<times> string) option" where
  "read_exponent [] = Some (0, [])"
| "read_exponent (c # cs) =
     (if c \<noteq> CHR ''e'' \<and> c \<noteq> CHR ''E'' then Some (0, c # cs)
      else
        (let (neg, ds) =
               (case cs of
                  [] \<Rightarrow> (False, [])
                | g # r \<Rightarrow>
                    if g = CHR ''-'' then (True, r) else if g = CHR ''+'' then (False, r)
                    else (False, cs))
         in case ds of
              [] \<Rightarrow> None
            | d # r \<Rightarrow>
                if \<not> is_digit d then None
                else
                  (let (m, rest) = read_digits ds 0
                   in Some (if neg then - int m else int m, rest))))"

definition pow10 :: "int \<Rightarrow> rat" where
  "pow10 e = (if 0 \<le> e then 10 ^ nat e else 1 / 10 ^ nat (- e))"

definition read_number :: "string \<Rightarrow> (jsval \<times> string) option" where
  "read_number cs =
    (let (neg, ds) =
           (case cs of
              [] \<Rightarrow> (False, [])
            | c # r \<Rightarrow> if c = CHR ''-'' then (True, r) else (False, cs))
     in case ds of
          [] \<Rightarrow> None
        | d # r \<Rightarrow>
            if \<not> is_digit d then None
            else if d = CHR ''0'' \<and> (case r of [] \<Rightarrow> False | e # r' \<Rightarrow> is_digit e) then None
            else
              (let (n, r1) = read_digits ds 0
               in case read_fraction r1 of
                    None \<Rightarrow> None
                  | Some (f, r2) \<Rightarrow>
                      (case read_exponent r2 of
                         None \<Rightarrow> None
                       | Some (e, r3) \<Rightarrow>
                           Some (JNum (Finite ((if neg then - 1 else 1) * (of_nat n + f) * pow10 e)),
                                 r3))))"

fun expect :: "string \<Rightarrow> string \<Rightarrow> string option" where
  "expect [] cs = Some cs"
| "expect (k # ks) [] = None"
| "expect (k # ks) (c # cs) = (if k = c then expect ks cs else None)"

fun read_value :: "nat \<Rightarrow> string \<Rightarrow> (jsval \<times> string) option"
  and read_elements :: "nat \<Rightarrow> string \<Rightarrow> jsval list \<Rightarrow> (jsval \<times> string) option"
  and read_members :: "nat \<Rightarrow> string \<Rightarrow> (string \<times> jsval) list \<Rightarrow> (jsval \<times> string) option" where
  "read_value 0 cs = None"
| "read_value (Suc n) cs =
     (case skip_ws cs of
        [] \<Rightarrow> None
      | c # r \<Rightarrow>
          if c = CHR ''n'' then map_option (Pair JNull) (expect ''ull'' r)
          else if c = CHR ''t'' then map_option (Pair (JBool True)) (expect ''rue'' r)
          else if c = CHR ''f'' then map_option (Pair (JBool False)) (expect ''alse'' r)
          else if c = CHR 0x22 then map_option (\<lambda>(s, r'). (JStr s, r')) (read_string r [])
          else if c = CHR ''['' then
            (case skip_ws r of
               [] \<Rightarrow> None
             | d # r' \<Rightarrow> if d = CHR '']'' then Some (JArr [], r') else read_elements n (d # r') [])
          else if c = CHR ''{'' then
            (case skip_ws r of
               [] \<Rightarrow> None
             | d # r' \<Rightarrow> if d = CHR ''}'' then Some (JObj [], r') else read_members n (d # r') [])
          else read_number (c # r))"
| "read_elements 0 cs acc = None"
| "read_elements (Suc n) cs acc =
     (case read_value n cs of
        None \<Rightarrow> None
      | Some (v, r) \<Rightarrow>
          (case skip_ws r of
             [] \<Rightarrow> None
           | d # r' \<Rightarrow>
               if d = CHR '','' then read_elements n r' (acc @ [v])
               else if d = CHR '']'' then Some (JArr (acc @ [v]), r')
               else None))"
| "read_members 0 cs acc = None"
| "read_members (Suc n) cs acc =
     (case skip_ws cs of
        [] \<Rightarrow> None
      | q # r \<Rightarrow>
          if q \<noteq> CHR 0x22 then None
          else
            (case read_string r [] of
               None \<Rightarrow> None
             | Some (k, r1) \<Rightarrow>
                 (case skip_ws r1 of
                    [] \<Rightarrow> None
                  | col # r2 \<Rightarrow>
                      if col \<noteq> CHR '':'' then None
                      else
                        (case read_value n r2 of
                           None \<Rightarrow> None
                         | Some (v, r3) \<Rightarrow>
                             (case skip_ws r3 of
                                [] \<Rightarrow> None
                              | d # r4 \<Rightarrow>
                                  if d = CHR '','' then read_members n r4 (AList.update k v acc)
                                  else if d = CHR ''}'' then Some (JObj (AList.update k v acc), r4)
                                  else None)))))"

definition read_json :: "string \<Rightarrow> js_exn + jsval" where
  "read_json s =
    (case read_value (Suc (length s)) s of
       None \<Rightarrow> Inl (SyntaxError ''Unexpected token'')
     | Some (v, rest) \<Rightarrow>
         if skip_ws rest = [] then Inr v else Inl (SyntaxError ''Unexpected token''))"


fun show_int :: "int \<Rightarrow> string" where
  "show_int i = (if i < 0 then CHR ''-'' # digits_of_nat (nat (- i)) else digits_of_nat (nat i))"

fun show_number :: "js_number \<Rightarrow> string" where
  "show_number NaN = ''NaN''"
| "show_number Infinity = ''Infinity''"
| "show_number NegInfinity = ''-Infinity''"
| "show_number (Finite q) =
     (case quotient_of q of (n, d) \<Rightarrow> if d = 1 then show_int n else show_int n @ ''/'' @ show_int d)"

definition hex_digit :: "nat \<Rightarrow> char" where
  "hex_digit n = (if n < 10 then char_of (48 + n) else char_of (87 + n))"

definition quote_char :: "char \<Rightarrow> string" where
  "quote_char c =
    (if c = CHR 0x22 then [backslash, CHR 0x22]
     else if c = backslash then [backslash, backslash]
     else if c = CHR 0x08 then [backslash, CHR ''b'']
     else if c = CHR 0x0C then [backslash, CHR ''f'']
     else if c = CHR 0x0A then [backslash, CHR ''n'']
     else if c = CHR 0x0D then [backslash, CHR ''r'']
     else if c = CHR 0x09 then [backslash, CHR ''t'']
     else if (of_char c :: nat) < 32
     then [backslash, CHR ''u'', CHR ''0'', CHR ''0'',
           hex_digit ((of_char c :: nat) div 16), hex_digit ((of_char c :: nat) mod 16)]
     else [c])"

definition quote :: "string \<Rightarrow> string" where
  "quote s = CHR 0x22 # concat (map quote_char s) @ [CHR 0x22]"

fun join :: "string \<Rightarrow> string list \<Rightarrow> string" where
  "join sep [] = []"
| "join sep [x] = x"
| "join sep (x # y # ys) = x @ sep @ join sep (y # ys)"

fun write_json :: "jsval \<Rightarrow> string" where
  "write_json JUndefined = ''undefined''"
| "write_json JNull = ''null''"
| "write_json (JBool b) = (if b then ''true'' else ''false'')"
| "write_json (JNum n) = (case n of Finite q \<Rightarrow> show_number n | _ \<Rightarrow> ''null'')"
| "write_json (JStr s) = quote s"
| "write_json (JArr xs) =
     ''['' @ join '','' (map (\<lambda>x. if x = JUndefined then ''null'' else write_json x) xs) @ '']''"
| "write_json (JObj kvs) =
     ''{'' @ join '',''
        (map (\<lambda>(k, x). quote k @ '':'' @ write_json x) (filter (\<lambda>(k, x). x \<noteq> JUndefined) kvs))
      @ ''}''"

fun to_string :: "jsval \<Rightarrow> js_exn + string"
  and to_string_elements :: "jsval list \<Rightarrow> js_exn + string list" where
  "to_string JUndefined = Inr ''undefined''"
| "to_string JNull = Inr ''null''"
| "to_string (JBool b) = Inr (if b then ''true'' else ''false'')"
| "to_string (JNum n) = Inr (show_number n)"
| "to_string (JStr s) = Inr s"
| "to_string (JArr xs) =
     (case to_string_elements xs of Inl e \<Rightarrow> Inl e | Inr ss \<Rightarrow> Inr (join '','' ss))"
| "to_string (JObj kvs) =
     (if ''toString'' \<in> fst ` set kvs
      then Inl (TypeError ''Cannot convert object to primitive value'')
      else Inr ''[object Object]'')"
| "to_string_elements [] = Inr []"
| "to_string_elements (x # xs) =
     (case (if x = JUndefined \<or> x = JNull then Inr [] else to_string x) of
        Inl e \<Rightarrow> Inl e
      | Inr s \<Rightarrow> (case to_string_elements xs of Inl e \<Rightarrow> Inl e | Inr ss \<Rightarrow> Inr (s # ss)))"

definition is_space :: "char \<Rightarrow> bool" where
  "is_space c = ((of_char c :: nat) \<in> {9, 10, 11, 12, 13, 32})"

definition digit_value :: "char \<Rightarrow> nat option" where
  "digit_value c =
    (let n = (of_char c :: nat)
     in if 48 \<le> n \<and> n \<le> 57 then Some (n - 48)
        else if 97 \<le> n \<and> n \<le> 122 then Some (n - 87)
        else if 65 \<le> n \<and> n \<le> 90 then Some (n - 55)
        else None)"

fun radix_digits :: "nat \<Rightarrow> string \<Rightarrow> nat option \<Rightarrow> nat option" where
  "radix_digits r [] acc = acc"
| "radix_digits r (c # cs) acc =
     (case digit_value c of
        None \<Rightarrow> acc
      | Some d \<Rightarrow>
          if d < r then radix_digits r cs (Some (r * (case acc of None \<Rightarrow> 0 | Some a \<Rightarrow> a) + d))
          else acc)"

definition parse_int :: "string \<Rightarrow> nat \<Rightarrow> js_number" where
  "parse_int s radix =
    (let t = dropWhile is_space s;
         (neg, u) =
           (case t of
              [] \<Rightarrow> (False, [])
            | c # r \<Rightarrow>
                if c = CHR ''-'' then (True, r) else if c = CHR ''+'' then (False, r) else (False, t));
         hex = (radix = 0 \<or> radix = 16) \<and> (take 2 u = ''0x'' \<or> take 2 u = ''0X'');
         r = (if radix = 0 then (if hex then 16 else 10) else radix);
         v = (if hex then drop 2 u else u)
     in if r < 2 \<or> 36 < r then NaN
        else
          (case radix_digits r v None of
             None \<Rightarrow> NaN
           | Some n \<Rightarrow> Finite (if neg then - of_nat n else of_nat n)))"

fun depth :: "jsval \<Rightarrow> nat" where
  "depth (JArr xs) = Suc (fold max (map depth xs) 0)"
| "depth (JObj kvs) = Suc (fold max (map (\<lambda>(k, x). depth x) kvs) 0)"
| "depth v = 0"

definition stack_limit :: nat where
  "stack_limit = 5000"

definition write_json_checked :: "jsval \<Rightarrow> js_exn + string" where
  "write_json_checked v =
    (if stack_limit < depth v then Inl (RangeError ''Maximum call stack size exceeded'')
     else Inr (write_json v))"

definition runtime :: js_builtins where
  "runtime = \<lparr>JSON_parse = read_json, JSON_stringify = write_json_checked,
              String_of = to_string, parseInt = parse_int\<rparr>"

text \<open>
  Arrays nested in one another, \<open>[[...[]...]]\<close> with \<open>n + 1\<close> pairs of brackets, as a
  value and as JSON text.
\<close>

primrec nested :: "nat \<Rightarrow> jsval" where
  "nested 0 = JArr []"
| "nested (Suc n) = JArr [nested n]"

definition nested_text :: "nat \<Rightarrow> string" where
  "nested_text n = replicate (Suc n) (CHR ''['') @ replicate (Suc n) (CHR '']'')"

section \<open>Tools and callbacks to evaluate with\<close>

text \<open>
  The typed parameters of the three tools as the JavaScript objects they are.
\<close>

definition ListFilesParams_value :: "ListFilesParams \<Rightarrow> jsval" where
  "ListFilesParams_value p =
     JObj [(''path'', JStr (path p)),
           (''recursive'', case recursive p of None \<Rightarrow> JUndefined | Some r \<Rightarrow> JBool r)]"

definition AttemptCompletionParams_value :: "AttemptCompletionParams \<Rightarrow> jsval" where
  "AttemptCompletionParams_value p =
     JObj [(''result'', JStr (result p)),
           (''command'', case command p of None \<Rightarrow> JUndefined | Some c \<Rightarrow> JStr c)]"

text \<open>
  The example tool parses as \<open>ListFilesTool\<close> does and notes in the state what it was
  executed with; the strict one throws an \<open>Error\<close> when there is no \<open>path\<close>, and the
  odd one throws an object whose \<open>toString\<close> is not a function; the read tool makes the
  one-entry list from \<open>path\<close>; the completion tool parses as \<open>AttemptCompletionTool\<close>
  does. The example callbacks note what they are given. The two
  name lists stand for \<open>toolNames\<close> and \<open>toolParamNames\<close>.
\<close>

definition example_tool :: "(jsval, string list) BaseTool" where
  "example_tool =
    \<lparr>tool_name = ''list_files'',
     parseLegacy = (\<lambda>ps s. (map_sum id ListFilesParams_value (ListFilesTool_parseLegacy ps), s)),
     execute = (\<lambda>p s. (Inr (), s @ [''listed''])),
     handlePartial = default_handlePartial\<rparr>"

definition example_strict_tool :: "(jsval, string list) BaseTool" where
  "example_strict_tool =
    example_tool
      \<lparr>parseLegacy :=
         (\<lambda>ps s. (if map_of ps ''path'' = None then Inl (Error ''path is required'')
                   else map_sum id ListFilesParams_value (ListFilesTool_parseLegacy ps), s))\<rparr>"

definition example_odd_tool :: "(jsval, string list) BaseTool" where
  "example_odd_tool =
    example_tool \<lparr>parseLegacy := (\<lambda>ps s. (Inl (Thrown (JObj [(''toString'', JNull)])), s))\<rparr>"

definition example_read_tool :: "(jsval, string list) BaseTool" where
  "example_read_tool =
    \<lparr>tool_name = ''read_file'',
     parseLegacy = (\<lambda>ps s. (Inr (JArr [JObj [(''path'', JStr (or_empty (map_of ps ''path''))),
                                              (''lineRanges'', JArr [])]]), s)),
     execute = (\<lambda>p s. (Inr (), s @ [''read''])),
     handlePartial = default_handlePartial\<rparr>"

definition example_callbacks :: "string list ToolCallbacks" where
  "example_callbacks =
    \<lparr>handleError = (\<lambda>action e s. (Inr (), s @ [''error '' @ action])),
     pushToolResult = (\<lambda>content s. (Inr (), s @ [content]))\<rparr>"

definition example_toolNames :: "string list" where
  "example_toolNames =
     [''read_file'', ''attempt_completion'', ''execute_command'', ''insert_content'', ''list_files'']"

definition example_toolParamNames :: "string list" where
  "example_toolParamNames =
     [''path'', ''files'', ''result'', ''command'', ''cwd'', ''line'', ''content'', ''recursive'']"

definition example_completion_tool :: "(jsval, string list) BaseTool" where
  "example_completion_tool =
    \<lparr>tool_name = ''attempt_completion'',
     parseLegacy = (\<lambda>ps s. (map_sum id AttemptCompletionParams_value
                                (AttemptCompletionTool_parseLegacy ps), s)),
     execute = (\<lambda>p s. (Inr (), s @ [''completed''])),
     handlePartial = default_handlePartial\<rparr>"

section \<open>Nested values in the runtime\<close>

lemma depth_nested: "depth (nested n) = Suc n"
  by (induction n) simp_all

lemma write_json_checked_nested:
  "stack_limit \<le> n \<Longrightarrow>
   write_json_checked (nested n) = Inl (RangeError ''Maximum call stack size exceeded'')"
  by (simp add: write_json_checked_def depth_nested)

lemma nested_text_0: "nested_text 0 = ''[]''"
  by (simp add: nested_text_def)

lemma nested_text_Suc: "nested_text (Suc n) = CHR ''['' # nested_text n @ [CHR '']'']"
  by (simp add: nested_text_def replicate_append_same)

lemma nested_text_head: "\<exists>r. nested_text n = CHR ''['' # r"
  by (simp add: nested_text_def)

lemma length_nested_text: "length (nested_text n) = 2 * n + 2"
  by (simp add: nested_text_def)

lemma skip_ws_open: "skip_ws (CHR ''['' # r) = CHR ''['' # r"
  and skip_ws_close: "skip_ws (CHR '']'' # r) = CHR '']'' # r"
  and skip_ws_brace: "skip_ws (CHR ''}'' # r) = CHR ''}'' # r"
  by (simp_all add: is_ws_def)

lemma read_value_nested:
  "2 * n + 1 \<le> f \<Longrightarrow> read_value f (nested_text n @ rest) = Some (nested n, rest)"
proof (induction n arbitrary: f rest)
  case 0
  then obtain f' where f: "f = Suc f'" by (cases f) auto
  show ?case by (simp add: f nested_text_0 is_ws_def)
next
  case (Suc n)
  then obtain f' where f: "f = Suc (Suc f')" and f': "2 * n + 1 \<le> f'"
    by (cases f; cases "f - 1") auto
  obtain r where r: "nested_text n = CHR ''['' # r"
    using nested_text_head by blast
  have inner: "read_value f' (CHR ''['' # r @ CHR '']'' # rest) = Some (nested n, CHR '']'' # rest)"
    using Suc.IH [OF f', of "CHR '']'' # rest"] by (simp add: r)
  show ?case
    by (simp add: f nested_text_Suc r is_ws_def inner)
qed

lemma read_json_files_nested:
  "read_json (''{\"files\":'' @ nested_text n @ ''}'') = Inr (JObj [(''files'', nested n)])"
proof -
  obtain f where f: "length (''{\"files\":'' @ nested_text n @ ''}'') = Suc f"
    and n: "2 * n + 1 \<le> f"
    by (simp add: length_nested_text)
  have v: "read_value f (nested_text n @ ''}'') = Some (nested n, ''}'')"
    by (rule read_value_nested [OF n])
  obtain r where r: "nested_text n = CHR ''['' # r"
    using nested_text_head by blast
  have v': "read_value f (CHR ''['' # r @ ''}'') = Some (nested n, ''}'')"
    using v by (simp add: r)
  have "read_value (Suc (Suc f)) (''{\"files\":'' @ nested_text n @ ''}'')
          = Some (JObj [(''files'', nested n)], [])"
    by (simp add: r v' is_ws_def backslash_def)
  then show ?thesis
    unfolding read_json_def f by simp
qed

lemma read_json_result_command_nested:
  "read_json (''{\"result\":\"\",\"command\":'' @ nested_text n @ ''}'')
     = Inr (JObj [(''result'', JStr []), (''command'', nested n)])"
proof -
  obtain f where f: "length (''{\"result\":\"\",\"command\":'' @ nested_text n @ ''}'')
      = Suc (Suc f)"
    and n: "2 * n + 1 \<le> f"
    by (simp add: length_nested_text)
  have v: "read_value f (nested_text n @ ''}'') = Some (nested n, ''}'')"
    by (rule read_value_nested [OF n])
  obtain r where r: "nested_text n = CHR ''['' # r"
    using nested_text_head by blast
  have v': "read_value f (CHR ''['' # r @ ''}'') = Some (nested n, ''}'')"
    using v by (simp add: r)
  have "read_value (Suc (Suc (Suc f))) (''{\"result\":\"\",\"command\":'' @ nested_text n @ ''}'')
          = Some (JObj [(''result'', JStr []), (''command'', nested n)], [])"
    by (simp add: r v' is_ws_def backslash_def)
  then show ?thesis
    unfolding read_json_def f by simp
qed

section \<open>What handle calls\<close>

lemma recorded_simps:
  "tool_name (recorded t) = tool_name t"
  "parseLegacy (recorded t) ps = logged (Called_parseLegacy ps) (parseLegacy t ps)"
  "execute (recorded t) p = logged (Called_execute p) (execute t p)"
  "handlePartial (recorded t) block = logged (Called_handlePartial block) (handlePartial t block)"
  by (simp_all add: recorded_def)

lemma recorded_callbacks_simps:
  "handleError (recorded_callbacks cb) action e = logged (Called_handleError action e) (handleError cb action e)"
  "pushToolResult (recorded_callbacks cb) content = logged (Called_pushToolResult content) (pushToolResult cb content)"
  by (simp_all add: recorded_callbacks_def)

lemma logged_apply: "logged c f (cs, s) = (fst (f s), (cs @ [c], snd (f s)))"
  by (simp add: logged_def split: prod.splits)

lemma calls_of_simp: "calls_of (r, cs, s) = cs"
  by (simp add: calls_of_def)

lemma handle_partial_eq:
  "partial block \<Longrightarrow>
   handle b (recorded t) (recorded_callbacks cb) block (cs, s) =
     (fst (handlePartial t block s), (cs @ [Called_handlePartial block], snd (handlePartial t block s)))"
  by (simp add: handle_def recorded_simps logged_apply)

lemma handle_native_eq:
  "\<not> partial block \<Longrightarrow> nativeArgs block = Some a \<Longrightarrow> JSON_stringify b a = Inr txt \<Longrightarrow>
   handle b (recorded t) (recorded_callbacks cb) block (cs, s) =
     (fst (execute t a s), (cs @ [Called_execute a], snd (execute t a s)))"
  by (simp add: handle_def resolveParams_def recorded_simps logged_apply)

lemma handle_native_fail_eq:
  "\<not> partial block \<Longrightarrow> nativeArgs block = Some a \<Longrightarrow> JSON_stringify b a = Inl e \<Longrightarrow>
   handle b (recorded t) (recorded_callbacks cb) block (cs, s) = reported b t cb e (cs, s)"
  by (simp add: handle_def resolveParams_def recorded_simps recorded_callbacks_simps logged_apply
      reported_def Let_def split: prod.splits sum.splits)

lemma handle_legacy_ok_eq:
  "\<not> partial block \<Longrightarrow> nativeArgs block = None \<Longrightarrow>
   parseLegacy t (params block) s = (Inr p, s1) \<Longrightarrow> JSON_stringify b p = Inr txt \<Longrightarrow>
   handle b (recorded t) (recorded_callbacks cb) block (cs, s) =
     (fst (execute t p s1),
      (cs @ [Called_parseLegacy (params block), Called_execute p], snd (execute t p s1)))"
  by (simp add: handle_def resolveParams_def recorded_simps logged_apply)

lemma handle_legacy_unlogged_eq:
  "\<not> partial block \<Longrightarrow> nativeArgs block = None \<Longrightarrow>
   parseLegacy t (params block) s = (Inr p, s1) \<Longrightarrow> JSON_stringify b p = Inl e \<Longrightarrow>
   handle b (recorded t) (recorded_callbacks cb) block (cs, s) =
     (Inl e, (cs @ [Called_parseLegacy (params block)], s1))"
  by (simp add: handle_def resolveParams_def recorded_simps logged_apply)

lemma handle_legacy_fail_eq:
  "\<not> partial block \<Longrightarrow> nativeArgs block = None \<Longrightarrow>
   parseLegacy t (params block) s = (Inl e, s1) \<Longrightarrow>
   handle b (recorded t) (recorded_callbacks cb) block (cs, s) =
     reported b t cb e (cs @ [Called_parseLegacy (params block)], s1)"
  by (simp add: handle_def resolveParams_def recorded_simps recorded_callbacks_simps logged_apply
      reported_def Let_def split: prod.splits sum.splits)

lemma reported_calls:
  "c \<in> set (calls_of (reported b t cb e (cs, s1))) \<Longrightarrow>
   c \<in> set cs \<or> (\<exists>a x. c = Called_handleError a x) \<or> (\<exists>x. c = Called_pushToolResult x)"
  by (auto simp add: reported_def calls_of_simp Let_def split: sum.splits prod.splits)

lemma reported_converted:
  assumes "error_message b e = Inr reason"
    and "m = ''Failed to parse '' @ tool_name t @ '' parameters: '' @ reason"
    and "a = ''parsing '' @ tool_name t @ '' args''"
  shows "Called_handleError a (Error m) \<in> set (calls_of (reported b t cb e (cs, s1)))"
    and "handleError cb a (Error m) s1 = (Inr (), s2) \<Longrightarrow>
         pushToolResult cb (''<error>'' @ m @ ''</error>'') s2 = (Inr (), s3) \<Longrightarrow>
         reported b t cb e (cs, s1) =
           (Inr (), (cs @ [Called_handleError a (Error m),
                           Called_pushToolResult (''<error>'' @ m @ ''</error>'')], s3))"
  using assms
  by (auto simp add: reported_def calls_of_simp Let_def split: sum.splits prod.splits)

lemma reported_unconverted:
  "error_message b e = Inl e' \<Longrightarrow> reported b t cb e (cs, s1) = (Inl e', (cs, s1))"
  by (simp add: reported_def)

lemma handle_native_calls:
  assumes "\<not> partial block" and "nativeArgs block = Some a"
    and "c \<in> set (calls_of (handle b (recorded t) (recorded_callbacks cb) block ([], s)))"
  shows "c = Called_execute a \<or> (\<exists>x y. c = Called_handleError x y) \<or> (\<exists>x. c = Called_pushToolResult x)"
proof (cases "JSON_stringify b a")
  case (Inl e)
  from assms(3) reported_calls [of c b t cb e "[]" s]
  show ?thesis by (simp add: handle_native_fail_eq [OF assms(1,2) Inl])
next
  case (Inr out)
  from assms(3) show ?thesis
    by (simp add: handle_native_eq [OF assms(1,2) Inr] calls_of_simp)
qed

lemma handle_legacy_calls:
  assumes "\<not> partial block" and "nativeArgs block = None"
    and "c \<in> set (calls_of (handle b (recorded t) (recorded_callbacks cb) block ([], s)))"
  shows "c = Called_parseLegacy (params block)
       \<or> (\<exists>p s1. c = Called_execute p \<and> parseLegacy t (params block) s = (Inr p, s1))
       \<or> (\<exists>e s1. parseLegacy t (params block) s = (Inl e, s1)
             \<and> ((\<exists>x y. c = Called_handleError x y) \<or> (\<exists>x. c = Called_pushToolResult x)))"
proof (cases "parseLegacy t (params block) s")
  case (Pair r s1)
  show ?thesis
  proof (cases r)
    case (Inl e)
    with Pair have pl: "parseLegacy t (params block) s = (Inl e, s1)" by simp
    from assms(3) reported_calls [of c b t cb e "[Called_parseLegacy (params block)]" s1] pl
    show ?thesis by (auto simp add: handle_legacy_fail_eq [OF assms(1,2) pl])
  next
    case (Inr p)
    with Pair have pl: "parseLegacy t (params block) s = (Inr p, s1)" by simp
    show ?thesis
    proof (cases "JSON_stringify b p")
      case (Inl e)
      from assms(3) show ?thesis
        by (simp add: handle_legacy_unlogged_eq [OF assms(1,2) pl Inl] calls_of_simp)
    next
      case inr: (Inr out)
      from assms(3) pl show ?thesis
        by (auto simp add: handle_legacy_ok_eq [OF assms(1,2) pl inr] calls_of_simp)
    qed
  qed
qed

lemma handle_legacy_first_call:
  assumes "\<not> partial block" and "nativeArgs block = None"
  shows "take 1 (calls_of (handle b (recorded t) (recorded_callbacks cb) block ([], s))) =
           [Called_parseLegacy (params block)]"
proof (cases "parseLegacy t (params block) s")
  case (Pair r s1)
  show ?thesis
  proof (cases r)
    case (Inl e)
    with Pair have pl: "parseLegacy t (params block) s = (Inl e, s1)" by simp
    show ?thesis
      by (simp add: handle_legacy_fail_eq [OF assms pl] reported_def calls_of_simp Let_def
          split: sum.splits prod.splits)
  next
    case (Inr p)
    with Pair have pl: "parseLegacy t (params block) s = (Inr p, s1)" by simp
    show ?thesis
    proof (cases "JSON_stringify b p")
      case (Inl e)
      show ?thesis by (simp add: handle_legacy_unlogged_eq [OF assms pl Inl] calls_of_simp)
    next
      case inr: (Inr out)
      show ?thesis by (simp add: handle_legacy_ok_eq [OF assms pl inr] calls_of_simp)
    qed
  qed
qed

lemma nested_is_array: "isArray (nested n)" "truthy (nested n)"
  by (cases n; simp)+

text \<open>
  C1, amended. For a complete (non-partial) invocation with \<open>nativeArgs\<close> present,
  \<open>parseLegacy\<close> is never called and \<open>execute\<close>, when it is called, receives
  \<open>nativeArgs\<close> itself; it is called, as the only call, whenever
  \<open>JSON.stringify(nativeArgs)\<close>, which \<open>handle\<close> evaluates for its log, returns. With
  \<open>nativeArgs\<close> absent, \<open>execute\<close>, when it is called, receives what
  \<open>parseLegacy(block.params)\<close> returned; it is called whenever \<open>parseLegacy\<close> returns
  and \<open>JSON.stringify\<close> of its result returns.
\<close>

theorem handle_complete_resolution:
  assumes "\<not> partial block"
  shows "(nativeArgs block = Some a \<longrightarrow>
            (\<forall>ps. Called_parseLegacy ps
                   \<notin> set (calls_of (handle b (recorded t) (recorded_callbacks cb) block ([], s))))
          \<and> (\<forall>p. Called_execute p
                   \<in> set (calls_of (handle b (recorded t) (recorded_callbacks cb) block ([], s)))
                 \<longrightarrow> p = a)
          \<and> ((\<exists>out. JSON_stringify b a = Inr out) \<longrightarrow>
               handle b (recorded t) (recorded_callbacks cb) block (cs, s) =
                 (fst (execute t a s), (cs @ [Called_execute a], snd (execute t a s)))))
       \<and> (nativeArgs block = None \<longrightarrow>
            (\<forall>p. Called_execute p
                   \<in> set (calls_of (handle b (recorded t) (recorded_callbacks cb) block ([], s)))
                 \<longrightarrow> (\<exists>s1. parseLegacy t (params block) s = (Inr p, s1)))
          \<and> (parseLegacy t (params block) s = (Inr p, s1) \<longrightarrow>
               (\<exists>out. JSON_stringify b p = Inr out) \<longrightarrow>
               handle b (recorded t) (recorded_callbacks cb) block (cs, s) =
                 (fst (execute t p s1),
                  (cs @ [Called_parseLegacy (params block), Called_execute p],
                   snd (execute t p s1)))))"
proof (intro conjI impI allI)
  fix ps
  assume na: "nativeArgs block = Some a"
  show "Called_parseLegacy ps
          \<notin> set (calls_of (handle b (recorded t) (recorded_callbacks cb) block ([], s)))"
    using handle_native_calls [OF assms na, of "Called_parseLegacy ps" b t cb s] by auto
next
  fix p
  assume na: "nativeArgs block = Some a"
    and "Called_execute p
           \<in> set (calls_of (handle b (recorded t) (recorded_callbacks cb) block ([], s)))"
  then show "p = a"
    using handle_native_calls [OF assms na, of "Called_execute p" b t cb s] by auto
next
  assume na: "nativeArgs block = Some a" and "\<exists>out. JSON_stringify b a = Inr out"
  then obtain out where "JSON_stringify b a = Inr out" by blast
  then show "handle b (recorded t) (recorded_callbacks cb) block (cs, s) =
      (fst (execute t a s), (cs @ [Called_execute a], snd (execute t a s)))"
    by (rule handle_native_eq [OF assms na])
next
  fix p
  assume na: "nativeArgs block = None"
    and "Called_execute p
           \<in> set (calls_of (handle b (recorded t) (recorded_callbacks cb) block ([], s)))"
  then show "\<exists>s1. parseLegacy t (params block) s = (Inr p, s1)"
    using handle_legacy_calls [OF assms na, of "Called_execute p" b t cb s] by auto
next
  assume na: "nativeArgs block = None" and pl: "parseLegacy t (params block) s = (Inr p, s1)"
    and "\<exists>out. JSON_stringify b p = Inr out"
  then obtain out where "JSON_stringify b p = Inr out" by blast
  then show "handle b (recorded t) (recorded_callbacks cb) block (cs, s) =
      (fst (execute t p s1),
       (cs @ [Called_parseLegacy (params block), Called_execute p], snd (execute t p s1)))"
    by (rule handle_legacy_ok_eq [OF assms na pl])
qed

text \<open>
  C1 as stated fails: for a \<open>read_file\<close> call whose \<open>files\<close> is an array nested
  10000 deep the parser returns an invocation with that array as \<open>nativeArgs\<close>;
  \<open>JSON.stringify\<close> throws on it inside the \<open>try\<close>, and \<open>handle\<close> reports a
  parameter failure and never calls \<open>execute\<close>.
\<close>

theorem handle_unserialisable_native_args_counterexample:
  "parseToolCall runtime example_toolNames example_toolParamNames
     \<lparr>toolCall_id = ''call_1'', toolCall_name = ''read_file'',
      toolCall_arguments = ''{\"files\":'' @ nested_text 10000 @ ''}''\<rparr>
     = Inr (Some \<lparr>type = ''tool_use'', name = ''read_file'', params = [], partial = False,
                   nativeArgs = Some (nested 10000)\<rparr>)
   \<and> handle runtime (recorded example_read_tool) (recorded_callbacks example_callbacks)
       \<lparr>type = ''tool_use'', name = ''read_file'', params = [], partial = False,
        nativeArgs = Some (nested 10000)\<rparr> ([], [])
     = (Inr (),
        ([Called_handleError ''parsing read_file args''
            (Error ''Failed to parse read_file parameters: Maximum call stack size exceeded''),
          Called_pushToolResult
            ''<error>Failed to parse read_file parameters: Maximum call stack size exceeded</error>''],
         [''error parsing read_file args'',
          ''<error>Failed to parse read_file parameters: Maximum call stack size exceeded</error>'']))"
proof
  have "JSON_parse runtime (''{\"files\":'' @ nested_text 10000 @ ''}'')
          = Inr (JObj [(''files'', nested 10000)])"
    using read_json_files_nested [of 10000] by (simp add: runtime_def)
  then show "parseToolCall runtime example_toolNames example_toolParamNames
     \<lparr>toolCall_id = ''call_1'', toolCall_name = ''read_file'',
      toolCall_arguments = ''{\"files\":'' @ nested_text 10000 @ ''}''\<rparr>
     = Inr (Some \<lparr>type = ''tool_use'', name = ''read_file'', params = [], partial = False,
                   nativeArgs = Some (nested 10000)\<rparr>)"
    by (simp add: parseToolCall_def example_toolNames_def toolUseOfArgs_def buildNativeArgs_def
        nested_is_array)
next
  let ?block = "\<lparr>type = ''tool_use'', name = ''read_file'', params = [], partial = False,
        nativeArgs = Some (nested 10000)\<rparr>"
  have 1: "\<not> partial ?block" and 2: "nativeArgs ?block = Some (nested 10000)" by simp_all
  have 3: "JSON_stringify runtime (nested 10000)
             = Inl (RangeError ''Maximum call stack size exceeded'')"
    by (simp add: runtime_def write_json_checked_nested stack_limit_def)
  show "handle runtime (recorded example_read_tool) (recorded_callbacks example_callbacks)
       ?block ([], [])
     = (Inr (),
        ([Called_handleError ''parsing read_file args''
            (Error ''Failed to parse read_file parameters: Maximum call stack size exceeded''),
          Called_pushToolResult
            ''<error>Failed to parse read_file parameters: Maximum call stack size exceeded</error>''],
         [''error parsing read_file args'',
          ''<error>Failed to parse read_file parameters: Maximum call stack size exceeded</error>'']))"
    by (simp add: handle_native_fail_eq [OF 1 2 3] reported_def example_read_tool_def
        example_callbacks_def Let_def)
qed

theorem handle_complete_resolution_witness:
  "handle runtime (recorded example_tool) (recorded_callbacks example_callbacks)
     \<lparr>type = ''tool_use'', name = ''list_files'', params = [(''path'', ''lib'')], partial = False,
      nativeArgs = Some (JObj [(''path'', JStr ''src'')])\<rparr> ([], []) =
     (Inr (), ([Called_execute (JObj [(''path'', JStr ''src'')])], [''listed'']))
   \<and> handle runtime (recorded example_tool) (recorded_callbacks example_callbacks)
     \<lparr>type = ''tool_use'', name = ''list_files'',
      params = [(''path'', ''lib''), (''recursive'', ''TRUE'')], partial = False,
      nativeArgs = None\<rparr> ([], []) =
     (Inr (), ([Called_parseLegacy [(''path'', ''lib''), (''recursive'', ''TRUE'')],
                Called_execute (JObj [(''path'', JStr ''lib''), (''recursive'', JBool True)])],
               [''listed'']))"
proof -
  let ?native = "\<lparr>type = ''tool_use'', name = ''list_files'', params = [(''path'', ''lib'')],
      partial = False, nativeArgs = Some (JObj [(''path'', JStr ''src'')])\<rparr>"
  let ?legacy = "\<lparr>type = ''tool_use'', name = ''list_files'',
      params = [(''path'', ''lib''), (''recursive'', ''TRUE'')], partial = False,
      nativeArgs = (None :: jsval option)\<rparr>"
  have n: "\<not> partial ?native" and l: "\<not> partial ?legacy" by simp_all
  have na: "nativeArgs ?native = Some (JObj [(''path'', JStr ''src'')])"
    and nl: "nativeArgs ?legacy = None" by simp_all
  have s1: "\<exists>out. JSON_stringify runtime (JObj [(''path'', JStr ''src'')]) = Inr out"
    by (simp add: runtime_def write_json_checked_def stack_limit_def)
  have pl: "parseLegacy example_tool (params ?legacy) [] =
              (Inr (JObj [(''path'', JStr ''lib''), (''recursive'', JBool True)]), [])"
    by code_simp
  have s2: "\<exists>out. JSON_stringify runtime
                (JObj [(''path'', JStr ''lib''), (''recursive'', JBool True)]) = Inr out"
    by (simp add: runtime_def write_json_checked_def stack_limit_def)
  note thm1 = handle_complete_resolution [OF n, where b = runtime and t = example_tool
      and cb = example_callbacks and cs = "[]" and s = "[]"
      and a = "JObj [(''path'', JStr ''src'')]"]
  note thm2 = handle_complete_resolution [OF l, where b = runtime and t = example_tool
      and cb = example_callbacks and cs = "[]" and s = "[]"
      and p = "JObj [(''path'', JStr ''lib''), (''recursive'', JBool True)]" and ?s1.0 = "[]"]
  from thm1 [THEN conjunct1, rule_format, OF na, THEN conjunct2, THEN conjunct2, rule_format, OF s1]
    thm2 [THEN conjunct2, rule_format, OF nl, THEN conjunct2, rule_format, OF pl s2]
  show ?thesis by (simp add: example_tool_def)
qed

text \<open>
  C2. For an invocation with \<open>partial = true\<close>, \<open>handle\<close> calls \<open>handlePartial\<close> and
  nothing else (no \<open>parseLegacy\<close>, no \<open>execute\<close>, no callback) and returns what it
  returned. \<open>execute\<close> is called only for an invocation with \<open>partial = false\<close>.
\<close>

theorem handle_partial_only_echo:
  "(partial block \<longrightarrow>
      handle b (recorded t) (recorded_callbacks cb) block (cs, s) =
        (fst (handlePartial t block s), (cs @ [Called_handlePartial block], snd (handlePartial t block s))))
   \<and> (Called_execute p \<in> set (calls_of (handle b (recorded t) (recorded_callbacks cb) block ([], s)))
        \<longrightarrow> \<not> partial block)"
  by (auto simp add: handle_partial_eq calls_of_simp)

theorem handle_partial_only_echo_witness:
  "handle runtime (recorded example_tool) (recorded_callbacks example_callbacks)
     \<lparr>type = ''tool_use'', name = ''list_files'', params = [(''path'', ''li'')], partial = True,
      nativeArgs = None\<rparr> ([], []) =
     (Inr (), ([Called_handlePartial
                  \<lparr>type = ''tool_use'', name = ''list_files'', params = [(''path'', ''li'')],
                   partial = True, nativeArgs = None\<rparr>], []))
   \<and> Called_execute (JObj [(''path'', JStr ''src'')])
        \<in> set (calls_of (handle runtime (recorded example_tool) (recorded_callbacks example_callbacks)
             \<lparr>type = ''tool_use'', name = ''list_files'', params = [], partial = False,
              nativeArgs = Some (JObj [(''path'', JStr ''src'')])\<rparr> ([], [])))
   \<and> \<not> partial \<lparr>type = ''tool_use'', name = ''list_files'', params = [], partial = False,
              nativeArgs = Some (JObj [(''path'', JStr ''src'')])\<rparr>"
proof -
  let ?part = "\<lparr>type = ''tool_use'', name = ''list_files'', params = [(''path'', ''li'')],
      partial = True, nativeArgs = (None :: jsval option)\<rparr>"
  let ?full = "\<lparr>type = ''tool_use'', name = ''list_files'', params = [], partial = False,
      nativeArgs = Some (JObj [(''path'', JStr ''src'')])\<rparr>"
  have s1: "JSON_stringify runtime (JObj [(''path'', JStr ''src'')])
              = Inr (write_json (JObj [(''path'', JStr ''src'')]))"
    by (simp add: runtime_def write_json_checked_def stack_limit_def)
  have ex: "Called_execute (JObj [(''path'', JStr ''src'')])
        \<in> set (calls_of (handle runtime (recorded example_tool) (recorded_callbacks example_callbacks)
             ?full ([], [])))"
    by (simp add: handle_native_eq [OF _ _ s1] calls_of_simp)
  from handle_partial_only_echo [where block = ?part and t = example_tool and b = runtime
      and cb = example_callbacks and cs = "[]" and s = "[]"]
    handle_partial_only_echo [where block = ?full and t = example_tool and b = runtime
      and cb = example_callbacks and s = "[]" and p = "JObj [(''path'', JStr ''src'')]"] ex
  show ?thesis by (simp add: example_tool_def default_handlePartial_def)
qed

text \<open>
  C3, amended. For a complete invocation with no \<open>nativeArgs\<close> whose \<open>parseLegacy\<close>
  throws, \<open>handle\<close> never calls \<open>execute\<close>. When the thrown value is an \<open>Error\<close>, or
  a value that \<open>String\<close> converts, \<open>handle\<close> calls \<open>handleError\<close> with the
  failure; when the two callbacks return, the calls are \<open>parseLegacy\<close>, \<open>handleError\<close>
  and \<open>pushToolResult\<close> with the error wrapped in \<open><error>\<close> tags, and \<open>handle\<close>
  returns normally: the exception stays inside.
\<close>

theorem handle_parse_failure:
  assumes "\<not> partial block" and "nativeArgs block = None"
    and "parseLegacy t (params block) s = (Inl e, s1)"
  shows "Called_execute p
           \<notin> set (calls_of (handle b (recorded t) (recorded_callbacks cb) block ([], s)))
       \<and> (error_message b e = Inr reason \<longrightarrow>
            m = ''Failed to parse '' @ tool_name t @ '' parameters: '' @ reason \<longrightarrow>
            a = ''parsing '' @ tool_name t @ '' args'' \<longrightarrow>
              Called_handleError a (Error m)
                \<in> set (calls_of (handle b (recorded t) (recorded_callbacks cb) block ([], s)))
            \<and> (handleError cb a (Error m) s1 = (Inr (), s2) \<longrightarrow>
                 pushToolResult cb (''<error>'' @ m @ ''</error>'') s2 = (Inr (), s3) \<longrightarrow>
                 handle b (recorded t) (recorded_callbacks cb) block (cs, s) =
                   (Inr (), (cs @ [Called_parseLegacy (params block),
                                  Called_handleError a (Error m),
                                  Called_pushToolResult (''<error>'' @ m @ ''</error>'')], s3))))"
proof (intro conjI impI)
  show "Called_execute p
          \<notin> set (calls_of (handle b (recorded t) (recorded_callbacks cb) block ([], s)))"
    using handle_legacy_calls [OF assms(1,2), of "Called_execute p" b t cb s] assms(3) by auto
next
  assume c: "error_message b e = Inr reason"
    and m: "m = ''Failed to parse '' @ tool_name t @ '' parameters: '' @ reason"
    and a: "a = ''parsing '' @ tool_name t @ '' args''"
  show "Called_handleError a (Error m)
          \<in> set (calls_of (handle b (recorded t) (recorded_callbacks cb) block ([], s)))"
    using reported_converted(1) [OF c m a]
    by (simp add: handle_legacy_fail_eq [OF assms])
  assume "handleError cb a (Error m) s1 = (Inr (), s2)"
    and "pushToolResult cb (''<error>'' @ m @ ''</error>'') s2 = (Inr (), s3)"
  then show "handle b (recorded t) (recorded_callbacks cb) block (cs, s) =
      (Inr (), (cs @ [Called_parseLegacy (params block), Called_handleError a (Error m),
                     Called_pushToolResult (''<error>'' @ m @ ''</error>'')], s3))"
    using reported_converted(2) [OF c m a, of cb s1 s2 s3 "cs @ [Called_parseLegacy (params block)]"]
    by (simp add: handle_legacy_fail_eq [OF assms])
qed

text \<open>
  C3 as stated fails: when \<open>parseLegacy\<close> throws an object whose \<open>toString\<close> is not a
  function, \<open>String(error)\<close> throws in the \<open>catch\<close> block; \<open>handle\<close> calls no
  callback and the \<open>TypeError\<close> leaves it.
\<close>

theorem handle_unconvertible_throw_counterexample:
  "parseLegacy example_odd_tool [(''path'', ''src'')] []
     = (Inl (Thrown (JObj [(''toString'', JNull)])), [])
   \<and> handle runtime (recorded example_odd_tool) (recorded_callbacks example_callbacks)
       \<lparr>type = ''tool_use'', name = ''list_files'', params = [(''path'', ''src'')],
        partial = False, nativeArgs = None\<rparr> ([], [])
     = (Inl (TypeError ''Cannot convert object to primitive value''),
        ([Called_parseLegacy [(''path'', ''src'')]], []))"
proof
  show pl: "parseLegacy example_odd_tool [(''path'', ''src'')] []
     = (Inl (Thrown (JObj [(''toString'', JNull)])), [])"
    by (simp add: example_odd_tool_def)
  let ?block = "\<lparr>type = ''tool_use'', name = ''list_files'', params = [(''path'', ''src'')],
        partial = False, nativeArgs = (None :: jsval option)\<rparr>"
  have 1: "\<not> partial ?block" and 2: "nativeArgs ?block = None" by simp_all
  have 3: "parseLegacy example_odd_tool (params ?block) []
     = (Inl (Thrown (JObj [(''toString'', JNull)])), [])"
    using pl by simp
  have 4: "error_message runtime (Thrown (JObj [(''toString'', JNull)]))
     = Inl (TypeError ''Cannot convert object to primitive value'')"
    by (simp add: runtime_def)
  show "handle runtime (recorded example_odd_tool) (recorded_callbacks example_callbacks)
       ?block ([], [])
     = (Inl (TypeError ''Cannot convert object to primitive value''),
        ([Called_parseLegacy [(''path'', ''src'')]], []))"
    by (simp add: handle_legacy_fail_eq [OF 1 2 3] reported_unconverted [OF 4])
qed

theorem handle_parse_failure_witness:
  "handle runtime (recorded example_strict_tool) (recorded_callbacks example_callbacks)
     \<lparr>type = ''tool_use'', name = ''list_files'', params = [(''recursive'', ''true'')],
      partial = False, nativeArgs = None\<rparr> ([], []) =
     (Inr (),
      ([Called_parseLegacy [(''recursive'', ''true'')],
        Called_handleError ''parsing list_files args''
          (Error ''Failed to parse list_files parameters: path is required''),
        Called_pushToolResult
          ''<error>Failed to parse list_files parameters: path is required</error>''],
       [''error parsing list_files args'',
        ''<error>Failed to parse list_files parameters: path is required</error>'']))"
proof -
  let ?block = "\<lparr>type = ''tool_use'', name = ''list_files'', params = [(''recursive'', ''true'')],
      partial = False, nativeArgs = (None :: jsval option)\<rparr>"
  have 1: "\<not> partial ?block" and 2: "nativeArgs ?block = None" by simp_all
  have 3: "parseLegacy example_strict_tool (params ?block) [] = (Inl (Error ''path is required''), [])"
    by (simp add: example_strict_tool_def)
  have 4: "error_message runtime (Error ''path is required'') = Inr ''path is required''"
    by simp
  have 5: "''Failed to parse list_files parameters: path is required'' =
           ''Failed to parse '' @ tool_name example_strict_tool @ '' parameters: ''
             @ ''path is required''"
    by (simp add: example_strict_tool_def example_tool_def)
  have 6: "''parsing list_files args'' = ''parsing '' @ tool_name example_strict_tool @ '' args''"
    by (simp add: example_strict_tool_def example_tool_def)
  have 7: "handleError example_callbacks ''parsing list_files args''
             (Error ''Failed to parse list_files parameters: path is required'') []
           = (Inr (), [''error parsing list_files args''])"
    by (simp add: example_callbacks_def)
  have 8: "pushToolResult example_callbacks
             (''<error>'' @ ''Failed to parse list_files parameters: path is required'' @ ''</error>'')
             [''error parsing list_files args'']
           = (Inr (), [''error parsing list_files args'',
                ''<error>Failed to parse list_files parameters: path is required</error>''])"
    by (simp add: example_callbacks_def)
  from handle_parse_failure [OF 1 2 3, where b = runtime and cb = example_callbacks
      and cs = "[]", THEN conjunct2, rule_format, OF 4 5 6, THEN conjunct2, rule_format, OF 7 8]
  show ?thesis by simp
qed

section \<open>What parseToolCall returns\<close>

lemma synthesizeParams_keys:
  "synthesizeParams b tpn nm es ps = Inr qs \<Longrightarrow>
   fst ` set qs \<subseteq>
     fst ` set ps \<union> {k \<in> fst ` set es. k \<in> set tpn \<and> \<not> (nm = ''read_file'' \<and> k = ''files'')}"
proof (induction es arbitrary: ps)
  case Nil
  then show ?case by simp
next
  case (Cons kv es)
  obtain k v where kv: "kv = (k, v)" by (cases kv)
  show ?case
  proof (cases "(nm = ''read_file'' \<and> k = ''files'') \<or> k \<notin> set tpn")
    case True
    with Cons.prems kv have "synthesizeParams b tpn nm es ps = Inr qs"
      by (auto split: if_splits)
    from Cons.IH [OF this] show ?thesis by (auto simp add: kv)
  next
    case False
    with Cons.prems kv obtain sv where sv: "stringValue b v = Inr sv"
      and rest: "synthesizeParams b tpn nm es (AList.update k sv ps) = Inr qs"
      by (auto split: sum.splits)
    from Cons.IH [OF rest] False show ?thesis
      by (auto simp add: kv AList.dom_update)
  qed
qed

lemma synthesizeParams_append:
  "synthesizeParams b tpn nm (es1 @ es2) ps =
     (case synthesizeParams b tpn nm es1 ps of
        Inl e \<Rightarrow> Inl e
      | Inr qs \<Rightarrow> synthesizeParams b tpn nm es2 qs)"
  by (induction es1 arbitrary: ps) (auto split: sum.splits)

lemma synthesizeParams_unknown:
  "k \<notin> set tpn \<Longrightarrow>
   synthesizeParams b tpn nm (es1 @ (k, x) # es2) ps = synthesizeParams b tpn nm (es1 @ es2) ps"
  by (simp add: synthesizeParams_append split: sum.splits)

lemma synthesizeParams_ok:
  "(\<And>k x. (k, x) \<in> set es \<Longrightarrow> k \<in> set tpn \<Longrightarrow> \<not> (nm = ''read_file'' \<and> k = ''files'') \<Longrightarrow>
      \<exists>out. stringValue b x = Inr out) \<Longrightarrow>
   \<exists>qs. synthesizeParams b tpn nm es ps = Inr qs"
proof (induction es arbitrary: ps)
  case Nil
  show ?case by simp
next
  case (Cons kv es)
  obtain k v where kv: "kv = (k, v)" by (cases kv)
  have rest: "\<exists>qs. synthesizeParams b tpn nm es ps' = Inr qs" for ps'
    by (rule Cons.IH) (rule Cons.prems, auto)
  show ?case
  proof (cases "(nm = ''read_file'' \<and> k = ''files'') \<or> k \<notin> set tpn")
    case True
    with rest [of ps] show ?thesis by (auto simp add: kv)
  next
    case False
    with Cons.prems [of k v] obtain out where "stringValue b v = Inr out"
      by (auto simp add: kv)
    with False rest [of "AList.update k out ps"] show ?thesis by (auto simp add: kv)
  qed
qed

lemma synthesizeParams_throws:
  "(k, x) \<in> set es \<Longrightarrow> k \<in> set tpn \<Longrightarrow> \<not> (nm = ''read_file'' \<and> k = ''files'') \<Longrightarrow>
   stringValue b x = Inl e \<Longrightarrow> \<exists>e'. synthesizeParams b tpn nm es ps = Inl e'"
proof (induction es arbitrary: ps)
  case Nil
  then show ?case by simp
next
  case (Cons kv es)
  obtain k' v where kv: "kv = (k', v)" by (cases kv)
  show ?case
  proof (cases "(k', v) = (k, x)")
    case True
    with Cons.prems show ?thesis by (auto simp add: kv)
  next
    case False
    with Cons.prems have "(k, x) \<in> set es" by (auto simp add: kv)
    from Cons.IH [OF this Cons.prems(2,3,4)] show ?thesis
      by (auto simp add: kv split: sum.splits)
  qed
qed

lemma Object_entries_ok:
  "v \<noteq> JNull \<Longrightarrow> v \<noteq> JUndefined \<Longrightarrow> \<exists>es. Object_entries v = Inr es"
  by (cases v) simp_all

lemma buildNativeArgs_ok:
  "nm \<noteq> ''insert_content'' \<Longrightarrow> \<exists>na. buildNativeArgs b nm args = Inr na"
  by (simp add: buildNativeArgs_def)

lemma buildNativeArgs_insert_ok:
  "(\<exists>n. get_prop args ''line'' = JNum n) \<or> (\<exists>s. String_of b (get_prop args ''line'') = Inr s) \<Longrightarrow>
   \<exists>na. buildNativeArgs b ''insert_content'' args = Inr na"
  by (auto simp add: buildNativeArgs_def split: jsval.splits sum.splits)

lemma toolUseOfArgs_Inr:
  "toolUseOfArgs b tpn nm args = Inr u \<Longrightarrow>
   \<exists>es qs na. Object_entries args = Inr es \<and> synthesizeParams b tpn nm es [] = Inr qs \<and>
     buildNativeArgs b nm args = Inr na \<and>
     u = \<lparr>type = ''tool_use'', name = nm, params = qs, partial = False, nativeArgs = na\<rparr>"
  by (auto simp add: toolUseOfArgs_def split: sum.splits)

lemma toolUseOfArgs_ok:
  "Object_entries args = Inr es \<Longrightarrow> synthesizeParams b tpn nm es [] = Inr qs \<Longrightarrow>
   buildNativeArgs b nm args = Inr na \<Longrightarrow>
   toolUseOfArgs b tpn nm args =
     Inr \<lparr>type = ''tool_use'', name = nm, params = qs, partial = False, nativeArgs = na\<rparr>"
  by (simp add: toolUseOfArgs_def)

lemma failedToParse_Error: "instanceof_Error e \<Longrightarrow> failedToParse b e = Inr None"
  by (cases e) (simp_all add: failedToParse_def)

lemma failedToParse_not_Some: "failedToParse b e \<noteq> Inr (Some u)"
  by (simp add: failedToParse_def split: sum.splits)

lemma synthesizeParams_Error:
  "throws_Errors b \<Longrightarrow> synthesizeParams b tpn nm es ps = Inl e \<Longrightarrow> instanceof_Error e"
proof (induction es arbitrary: ps)
  case Nil
  then show ?case by simp
next
  case (Cons kv es)
  obtain k x where kv: "kv = (k, x)" by (cases kv)
  show ?case
  proof (cases "stringValue b x")
    case (Inl e')
    then have "JSON_stringify b x = Inl e'"
      by (cases x) (simp_all add: stringValue_def)
    with Cons.prems(1) have "instanceof_Error e'" by (simp add: throws_Errors_def)
    with Cons Inl kv show ?thesis by (auto split: if_splits)
  next
    case (Inr sv)
    with Cons kv show ?thesis by (auto split: if_splits)
  qed
qed

lemma buildNativeArgs_Error:
  "throws_Errors b \<Longrightarrow> buildNativeArgs b nm args = Inl e \<Longrightarrow> instanceof_Error e"
  by (auto simp add: buildNativeArgs_def throws_Errors_def split: if_splits jsval.splits sum.splits)

lemma Object_entries_Error: "Object_entries v = Inl e \<Longrightarrow> instanceof_Error e"
  by (cases v) auto

lemma toolUseOfArgs_Error:
  "throws_Errors b \<Longrightarrow> toolUseOfArgs b tpn nm args = Inl e \<Longrightarrow> instanceof_Error e"
  by (auto simp add: toolUseOfArgs_def split: sum.splits
      dest: Object_entries_Error synthesizeParams_Error buildNativeArgs_Error)

lemma read_json_Error: "read_json s = Inl e \<Longrightarrow> instanceof_Error e"
  by (auto simp add: read_json_def split: option.splits if_splits)

lemma write_json_checked_Error: "write_json_checked v = Inl e \<Longrightarrow> instanceof_Error e"
  by (auto simp add: write_json_checked_def split: if_splits)

lemma to_string_Error:
  "to_string v = Inl e \<Longrightarrow> instanceof_Error e"
  "to_string_elements vs = Inl e \<Longrightarrow> instanceof_Error e"
  by (induction v and vs rule: to_string_to_string_elements.induct)
    (auto split: sum.splits if_splits)

lemma runtime_throws_Errors: "throws_Errors runtime"
  by (auto simp add: throws_Errors_def runtime_def
      dest: read_json_Error write_json_checked_Error to_string_Error(1))

lemma parseToolCall_Some:
  "parseToolCall b tn tpn c = Inr (Some u) \<Longrightarrow>
   toolCall_name c \<in> set tn \<and>
   (\<exists>args. JSON_parse b (toolCall_arguments c) = Inr args \<and>
      toolUseOfArgs b tpn (toolCall_name c) args = Inr u)"
  by (auto simp add: parseToolCall_def failedToParse_not_Some split: if_splits sum.splits)

lemma parseToolCall_ok:
  "toolCall_name c \<in> set tn \<Longrightarrow> JSON_parse b (toolCall_arguments c) = Inr args \<Longrightarrow>
   toolUseOfArgs b tpn (toolCall_name c) args = Inr u \<Longrightarrow>
   parseToolCall b tn tpn c = Inr (Some u)"
  by (simp add: parseToolCall_def)

lemma parseToolCall_returns:
  assumes "throws_Errors b"
  shows "\<exists>r. parseToolCall b tn tpn c = Inr r"
proof (cases "JSON_parse b (toolCall_arguments c)")
  case (Inl e)
  with assms have "instanceof_Error e" by (simp add: throws_Errors_def)
  with Inl show ?thesis by (simp add: parseToolCall_def failedToParse_Error)
next
  case (Inr args)
  show ?thesis
  proof (cases "toolUseOfArgs b tpn (toolCall_name c) args")
    case (Inl e)
    with assms have "instanceof_Error e" by (rule toolUseOfArgs_Error)
    with Inl Inr show ?thesis by (simp add: parseToolCall_def failedToParse_Error)
  next
    case u: (Inr u)
    with Inr show ?thesis by (simp add: parseToolCall_def)
  qed
qed

lemma stringValue_nested: "stringValue b (nested n) = JSON_stringify b (nested n)"
  by (cases n) (simp_all add: stringValue_def)

lemma stringValue_JStr: "stringValue b (JStr s) = Inr s"
  by (simp add: stringValue_def)

text \<open>
  C4, amended. With built-in functions that throw \<open>Error\<close> objects only, as those of the
  language do, \<open>parseToolCall\<close> never throws to its caller, and it returns \<open>null\<close>
  when the arguments do not decode as JSON and when \<open>JSON.stringify\<close> throws on a value
  that the loop stores. It returns \<open>null\<close> when the name is outside \<open>toolNames\<close> and
  when the arguments decode to \<open>null\<close>. For a valid name and arguments that decode to any
  value other than \<open>null\<close> it returns an invocation with \<open>partial = false\<close>, provided
  that \<open>JSON.stringify\<close> returns on every value the loop stores that is not a string, and
  that in an \<open>insert_content\<close> call the \<open>line\<close> is a number or has a string
  conversion.
\<close>

theorem parseToolCall_outcome:
  "(throws_Errors b \<longrightarrow>
      (\<exists>r. parseToolCall b tn tpn c = Inr r)
    \<and> ((\<exists>e. JSON_parse b (toolCall_arguments c) = Inl e) \<longrightarrow> parseToolCall b tn tpn c = Inr None)
    \<and> (JSON_parse b (toolCall_arguments c) = Inr v \<longrightarrow> Object_entries v = Inr es \<longrightarrow>
         (k, x) \<in> set es \<longrightarrow> k \<in> set tpn \<longrightarrow> \<not> (toolCall_name c = ''read_file'' \<and> k = ''files'') \<longrightarrow>
         stringValue b x = Inl e \<longrightarrow> parseToolCall b tn tpn c = Inr None))
   \<and> (toolCall_name c \<notin> set tn \<longrightarrow> parseToolCall b tn tpn c = Inr None)
   \<and> (JSON_parse b (toolCall_arguments c) = Inr JNull \<longrightarrow> parseToolCall b tn tpn c = Inr None)
   \<and> (toolCall_name c \<in> set tn \<longrightarrow> JSON_parse b (toolCall_arguments c) = Inr v \<longrightarrow>
        v \<noteq> JNull \<longrightarrow> v \<noteq> JUndefined \<longrightarrow>
        (\<forall>es' k' x'. Object_entries v = Inr es' \<longrightarrow> (k', x') \<in> set es' \<longrightarrow> k' \<in> set tpn \<longrightarrow>
           \<not> (toolCall_name c = ''read_file'' \<and> k' = ''files'') \<longrightarrow>
           (\<exists>out. stringValue b x' = Inr out)) \<longrightarrow>
        (toolCall_name c = ''insert_content'' \<longrightarrow>
           (\<exists>n. get_prop v ''line'' = JNum n) \<or> (\<exists>s. String_of b (get_prop v ''line'') = Inr s)) \<longrightarrow>
        (\<exists>u. parseToolCall b tn tpn c = Inr (Some u) \<and> \<not> partial u))"
proof (intro conjI impI)
  assume "throws_Errors b"
  then show "\<exists>r. parseToolCall b tn tpn c = Inr r" by (rule parseToolCall_returns)
next
  assume te: "throws_Errors b" and "\<exists>e. JSON_parse b (toolCall_arguments c) = Inl e"
  then obtain e where e: "JSON_parse b (toolCall_arguments c) = Inl e" by blast
  with te have "instanceof_Error e" by (simp add: throws_Errors_def)
  with e show "parseToolCall b tn tpn c = Inr None"
    by (simp add: parseToolCall_def failedToParse_Error)
next
  assume te: "throws_Errors b"
    and js: "JSON_parse b (toolCall_arguments c) = Inr v"
    and es: "Object_entries v = Inr es"
    and kx: "(k, x) \<in> set es" "k \<in> set tpn" "\<not> (toolCall_name c = ''read_file'' \<and> k = ''files'')"
    and th: "stringValue b x = Inl e"
  from synthesizeParams_throws [OF kx th] obtain e' where
    e': "synthesizeParams b tpn (toolCall_name c) es [] = Inl e'" by blast
  with te have "instanceof_Error e'" by (rule synthesizeParams_Error)
  with js es e' show "parseToolCall b tn tpn c = Inr None"
    by (simp add: parseToolCall_def toolUseOfArgs_def failedToParse_Error)
next
  assume "toolCall_name c \<notin> set tn"
  then show "parseToolCall b tn tpn c = Inr None" by (simp add: parseToolCall_def)
next
  assume "JSON_parse b (toolCall_arguments c) = Inr JNull"
  then show "parseToolCall b tn tpn c = Inr None"
    by (simp add: parseToolCall_def toolUseOfArgs_def failedToParse_def)
next
  assume nm: "toolCall_name c \<in> set tn"
    and js: "JSON_parse b (toolCall_arguments c) = Inr v"
    and v: "v \<noteq> JNull" "v \<noteq> JUndefined"
    and str: "\<forall>es' k' x'. Object_entries v = Inr es' \<longrightarrow> (k', x') \<in> set es' \<longrightarrow> k' \<in> set tpn \<longrightarrow>
           \<not> (toolCall_name c = ''read_file'' \<and> k' = ''files'') \<longrightarrow>
           (\<exists>out. stringValue b x' = Inr out)"
    and line: "toolCall_name c = ''insert_content'' \<longrightarrow>
           (\<exists>n. get_prop v ''line'' = JNum n) \<or> (\<exists>s. String_of b (get_prop v ''line'') = Inr s)"
  obtain es' where es': "Object_entries v = Inr es'"
    using Object_entries_ok [OF v] by blast
  obtain qs where qs: "synthesizeParams b tpn (toolCall_name c) es' [] = Inr qs"
    using synthesizeParams_ok [of es' tpn "toolCall_name c" b "[]"] str es' by blast
  obtain na where na: "buildNativeArgs b (toolCall_name c) v = Inr na"
    using buildNativeArgs_ok [of "toolCall_name c" b v] buildNativeArgs_insert_ok [of v b] line
    by (cases "toolCall_name c = ''insert_content''") auto
  show "\<exists>u. parseToolCall b tn tpn c = Inr (Some u) \<and> \<not> partial u"
    using parseToolCall_ok [OF nm js toolUseOfArgs_ok [OF es' qs na]] by simp
qed

text \<open>
  C4 as stated fails: \<open>null\<close> is well-formed JSON and \<open>read_file\<close> a valid name, yet
  the result is \<open>null\<close>, since \<open>Object.entries(null)\<close> throws inside the \<open>try\<close>.
\<close>

theorem parseToolCall_null_arguments_counterexample:
  "''read_file'' \<in> set example_toolNames
   \<and> JSON_parse runtime ''null'' = Inr JNull
   \<and> parseToolCall runtime example_toolNames example_toolParamNames
        \<lparr>toolCall_id = ''call_1'', toolCall_name = ''read_file'', toolCall_arguments = ''null''\<rparr>
      = Inr None"
  by code_simp

text \<open>
  Two more calls with a valid name and well-formed arguments that are rejected: an
  \<open>insert_content\<close> call whose \<open>line\<close> is an object with an own \<open>toString\<close> key, on
  which \<open>String(args.line)\<close> throws, and a call with an array nested 10000 deep under a
  parameter name, on which \<open>JSON.stringify\<close> throws.
\<close>

lemma parseToolCall_unconvertible_line:
  "parseToolCall runtime example_toolNames example_toolParamNames
     \<lparr>toolCall_id = ''call_1'', toolCall_name = ''insert_content'',
      toolCall_arguments = ''{\"path\": \"a.txt\", \"line\": {\"toString\": 1}, \"content\": \"x\"}''\<rparr>
   = Inr None"
  by code_simp

lemma parseToolCall_deep_argument:
  "parseToolCall runtime example_toolNames example_toolParamNames
     \<lparr>toolCall_id = ''call_1'', toolCall_name = ''attempt_completion'',
      toolCall_arguments = ''{\"result\":\"\",\"command\":'' @ nested_text 10000 @ ''}''\<rparr>
   = Inr None"
proof -
  have "JSON_parse runtime (''{\"result\":\"\",\"command\":'' @ nested_text 10000 @ ''}'')
          = Inr (JObj [(''result'', JStr []), (''command'', nested 10000)])"
    using read_json_result_command_nested [of 10000] by (simp add: runtime_def)
  moreover have "JSON_stringify runtime (nested 10000)
             = Inl (RangeError ''Maximum call stack size exceeded'')"
    by (simp add: runtime_def write_json_checked_nested stack_limit_def)
  ultimately show ?thesis
    by (simp add: parseToolCall_def example_toolNames_def example_toolParamNames_def
        toolUseOfArgs_def stringValue_nested stringValue_JStr failedToParse_def)
qed

theorem parseToolCall_outcome_witness:
  "parseToolCall runtime example_toolNames example_toolParamNames
     \<lparr>toolCall_id = ''call_1'', toolCall_name = ''list_files'',
      toolCall_arguments = ''{\"path\": \"src\", \"recursive\": true}''\<rparr>
   = Inr (Some \<lparr>type = ''tool_use'', name = ''list_files'',
                 params = [(''path'', ''src''), (''recursive'', ''true'')],
                 partial = False, nativeArgs = None\<rparr>)
   \<and> parseToolCall runtime example_toolNames example_toolParamNames
     \<lparr>toolCall_id = ''call_2'', toolCall_name = ''no_such_tool'',
      toolCall_arguments = ''{\"path\": \"src\"}''\<rparr> = Inr None
   \<and> parseToolCall runtime example_toolNames example_toolParamNames
     \<lparr>toolCall_id = ''call_3'', toolCall_name = ''list_files'',
      toolCall_arguments = ''{\"path\": \"src\"''\<rparr> = Inr None"
proof -
  let ?ok = "\<lparr>toolCall_id = ''call_1'', toolCall_name = ''list_files'',
      toolCall_arguments = ''{\"path\": \"src\", \"recursive\": true}''\<rparr>"
  let ?name = "\<lparr>toolCall_id = ''call_2'', toolCall_name = ''no_such_tool'',
      toolCall_arguments = ''{\"path\": \"src\"}''\<rparr>"
  let ?json = "\<lparr>toolCall_id = ''call_3'', toolCall_name = ''list_files'',
      toolCall_arguments = ''{\"path\": \"src\"''\<rparr>"
  let ?v = "JObj [(''path'', JStr ''src''), (''recursive'', JBool True)]"
  have 1: "toolCall_name ?ok \<in> set example_toolNames"
    and 2: "toolCall_name ?name \<notin> set example_toolNames"
    by (simp_all add: example_toolNames_def)
  have 3: "JSON_parse runtime (toolCall_arguments ?ok) = Inr ?v"
    and 4: "JSON_parse runtime (toolCall_arguments ?json) = Inl (SyntaxError ''Unexpected token'')"
    by code_simp+
  have 5: "parseToolCall runtime example_toolNames example_toolParamNames ?ok
           = Inr (Some \<lparr>type = ''tool_use'', name = ''list_files'',
                 params = [(''path'', ''src''), (''recursive'', ''true'')],
                 partial = False, nativeArgs = None\<rparr>)"
    by code_simp
  have 6: "\<forall>es' k' x'. Object_entries ?v = Inr es' \<longrightarrow> (k', x') \<in> set es' \<longrightarrow>
             k' \<in> set example_toolParamNames \<longrightarrow>
             \<not> (toolCall_name ?ok = ''read_file'' \<and> k' = ''files'') \<longrightarrow>
             (\<exists>out. stringValue runtime x' = Inr out)"
    by (auto simp add: stringValue_def runtime_def write_json_checked_def stack_limit_def)
  have 7: "?v \<noteq> JNull" "?v \<noteq> JUndefined"
    and 8: "toolCall_name ?ok = ''insert_content'' \<longrightarrow>
           (\<exists>n. get_prop ?v ''line'' = JNum n) \<or> (\<exists>s. String_of runtime (get_prop ?v ''line'') = Inr s)"
    by simp_all
  note outcome = parseToolCall_outcome [where b = runtime and tn = example_toolNames
      and tpn = example_toolParamNames]
  from outcome [where c = ?ok and v = ?v] 1 3 7 6 8
  have "\<exists>u. parseToolCall runtime example_toolNames example_toolParamNames ?ok = Inr (Some u)
           \<and> \<not> partial u"
    by blast
  moreover
  from outcome [where c = ?name] 2
  have "parseToolCall runtime example_toolNames example_toolParamNames ?name = Inr None"
    by blast
  moreover
  from outcome [where c = ?json] 4 runtime_throws_Errors
  have "parseToolCall runtime example_toolNames example_toolParamNames ?json = Inr None"
    by blast
  ultimately show ?thesis using 5 by simp
qed

text \<open>
  C5. For \<open>read_file\<close>, the single-file arguments give the one-entry list
  \<open>[{path: "a.txt", lineRanges: []}]\<close> as \<open>nativeArgs\<close>, and the multi-file arguments
  give the decoded list under \<open>files\<close> itself, not wrapped again. What \<open>JSON.parse\<close>
  returns on the two texts is a hypothesis.
\<close>

theorem read_file_native_args:
  assumes "''read_file'' \<in> set tn"
  shows "(JSON_parse b ''{\"path\": \"a.txt\"}'' = Inr (JObj [(''path'', JStr ''a.txt'')]) \<longrightarrow>
          (\<exists>u. parseToolCall b tn tpn
                 \<lparr>toolCall_id = i, toolCall_name = ''read_file'',
                  toolCall_arguments = ''{\"path\": \"a.txt\"}''\<rparr> = Inr (Some u)
               \<and> nativeArgs u =
                   Some (JArr [JObj [(''path'', JStr ''a.txt''), (''lineRanges'', JArr [])]])))
       \<and> (JSON_parse b ''{\"files\":[{\"path\":\"a.txt\",\"line_ranges\":[[1,5]]}]}'' =
            Inr (JObj [(''files'',
                   JArr [JObj [(''path'', JStr ''a.txt''),
                               (''line_ranges'', JArr [JArr [JNum (Finite 1), JNum (Finite 5)]])]])]) \<longrightarrow>
          (\<exists>u. parseToolCall b tn tpn
                 \<lparr>toolCall_id = i, toolCall_name = ''read_file'',
                  toolCall_arguments = ''{\"files\":[{\"path\":\"a.txt\",\"line_ranges\":[[1,5]]}]}''\<rparr>
                 = Inr (Some u)
               \<and> nativeArgs u =
                   Some (JArr [JObj [(''path'', JStr ''a.txt''),
                                     (''line_ranges'', JArr [JArr [JNum (Finite 1), JNum (Finite 5)]])]])))"
  using assms
  by (simp add: parseToolCall_def toolUseOfArgs_def buildNativeArgs_def stringValue_JStr)

theorem read_file_native_args_witness:
  "(\<exists>u. parseToolCall runtime example_toolNames example_toolParamNames
          \<lparr>toolCall_id = ''call_1'', toolCall_name = ''read_file'',
           toolCall_arguments = ''{\"path\": \"a.txt\"}''\<rparr> = Inr (Some u)
        \<and> nativeArgs u = Some (JArr [JObj [(''path'', JStr ''a.txt''), (''lineRanges'', JArr [])]]))
   \<and> (\<exists>u. parseToolCall runtime example_toolNames example_toolParamNames
          \<lparr>toolCall_id = ''call_1'', toolCall_name = ''read_file'',
           toolCall_arguments = ''{\"files\":[{\"path\":\"a.txt\",\"line_ranges\":[[1,5]]}]}''\<rparr>
          = Inr (Some u)
        \<and> nativeArgs u =
            Some (JArr [JObj [(''path'', JStr ''a.txt''),
                              (''line_ranges'', JArr [JArr [JNum (Finite 1), JNum (Finite 5)]])]]))"
proof -
  have 1: "''read_file'' \<in> set example_toolNames"
    by (simp add: example_toolNames_def)
  have 2: "JSON_parse runtime ''{\"path\": \"a.txt\"}'' = Inr (JObj [(''path'', JStr ''a.txt'')])"
    by code_simp
  have 3: "JSON_parse runtime ''{\"files\":[{\"path\":\"a.txt\",\"line_ranges\":[[1,5]]}]}'' =
            Inr (JObj [(''files'',
                   JArr [JObj [(''path'', JStr ''a.txt''),
                               (''line_ranges'', JArr [JArr [JNum (Finite 1), JNum (Finite 5)]])]])])"
    by code_simp
  from read_file_native_args [OF 1, where b = runtime and tpn = example_toolParamNames
      and i = "''call_1''"] 2 3
  show ?thesis by blast
qed

text \<open>
  C6. The invocation returned for a \<open>read_file\<close> call has no \<open>files\<close> entry in its legacy
  parameters, whatever the arguments; a list under \<open>files\<close> is carried by \<open>nativeArgs\<close>.
\<close>

theorem read_file_params_without_files:
  assumes "toolCall_name c = ''read_file''" and "parseToolCall b tn tpn c = Inr (Some u)"
  shows "''files'' \<notin> fst ` set (params u) \<and> map_of (params u) ''files'' = None
       \<and> (\<forall>v. JSON_parse b (toolCall_arguments c) = Inr v \<longrightarrow> isArray (get_prop v ''files'') \<longrightarrow>
              nativeArgs u = Some (get_prop v ''files''))"
proof -
  from parseToolCall_Some [OF assms(2)] obtain args where
    js: "JSON_parse b (toolCall_arguments c) = Inr args"
    and tu: "toolUseOfArgs b tpn ''read_file'' args = Inr u"
    using assms(1) by auto
  from toolUseOfArgs_Inr [OF tu] obtain es qs na where
    qs: "synthesizeParams b tpn ''read_file'' es [] = Inr qs"
    and na: "buildNativeArgs b ''read_file'' args = Inr na"
    and u: "u = \<lparr>type = ''tool_use'', name = ''read_file'', params = qs, partial = False,
                 nativeArgs = na\<rparr>"
    by blast
  have keys: "''files'' \<notin> fst ` set (params u)"
    using synthesizeParams_keys [OF qs] by (auto simp add: u)
  have "isArray (get_prop args ''files'') \<Longrightarrow> na = Some (get_prop args ''files'')"
    using na by (cases "get_prop args ''files''") (simp_all add: buildNativeArgs_def)
  with keys js show ?thesis
    by (simp add: map_of_eq_None_iff u)
qed

theorem read_file_params_without_files_witness:
  "parseToolCall runtime example_toolNames example_toolParamNames
     \<lparr>toolCall_id = ''call_1'', toolCall_name = ''read_file'',
      toolCall_arguments = ''{\"files\":[{\"path\":\"a.txt\"},{\"path\":\"b.txt\"}],\"path\":\"c.txt\"}''\<rparr>
   = Inr (Some \<lparr>type = ''tool_use'', name = ''read_file'', params = [(''path'', ''c.txt'')],
                 partial = False,
                 nativeArgs = Some (JArr [JObj [(''path'', JStr ''a.txt'')],
                                          JObj [(''path'', JStr ''b.txt'')]])\<rparr>)
   \<and> ''files'' \<in> set example_toolParamNames
   \<and> map_of [(''path'', ''c.txt'')] ''files'' = None"
proof -
  let ?c = "\<lparr>toolCall_id = ''call_1'', toolCall_name = ''read_file'',
      toolCall_arguments = ''{\"files\":[{\"path\":\"a.txt\"},{\"path\":\"b.txt\"}],\"path\":\"c.txt\"}''\<rparr>"
  let ?u = "\<lparr>type = ''tool_use'', name = ''read_file'', params = [(''path'', ''c.txt'')],
                 partial = False,
                 nativeArgs = Some (JArr [JObj [(''path'', JStr ''a.txt'')],
                                          JObj [(''path'', JStr ''b.txt'')]])\<rparr>"
  have 1: "toolCall_name ?c = ''read_file''" by simp
  have 2: "parseToolCall runtime example_toolNames example_toolParamNames ?c = Inr (Some ?u)"
    by code_simp
  have 3: "''files'' \<in> set example_toolParamNames"
    by (simp add: example_toolParamNames_def)
  from read_file_params_without_files [OF 1 2] 2 3 show ?thesis by simp
qed

lemma get_prop_other:
  "key \<noteq> k \<Longrightarrow> get_prop (JObj (es1 @ (k, x) # es2)) key = get_prop (JObj (es1 @ es2)) key"
  by (simp add: map_add_def split: option.splits)

lemma buildNativeArgs_insert_content:
  "buildNativeArgs b ''insert_content'' args =
     (if get_prop args ''path'' \<noteq> JUndefined \<and> get_prop args ''line'' \<noteq> JUndefined
         \<and> get_prop args ''content'' \<noteq> JUndefined
      then
        (case get_prop args ''line'' of
           JNum n \<Rightarrow>
             Inr (Some (JObj [(''path'', get_prop args ''path''), (''line'', JNum n),
                              (''content'', get_prop args ''content'')]))
         | v \<Rightarrow>
             (case String_of b v of
                Inl e \<Rightarrow> Inl e
              | Inr s \<Rightarrow>
                  Inr (Some (JObj [(''path'', get_prop args ''path''),
                                   (''line'', JNum (parseInt b s 10)),
                                   (''content'', get_prop args ''content'')]))))
      else Inr None)"
  by (simp add: buildNativeArgs_def)

lemma buildNativeArgs_insert_content_cong:
  assumes "get_prop args ''path'' = get_prop args' ''path''"
    and "get_prop args ''line'' = get_prop args' ''line''"
    and "get_prop args ''content'' = get_prop args' ''content''"
  shows "buildNativeArgs b ''insert_content'' args = buildNativeArgs b ''insert_content'' args'"
  by (simp only: buildNativeArgs_insert_content assms)

lemma buildNativeArgs_unknown_key:
  assumes "buildNativeArgs b nm (JObj (es1 @ es2)) = Inr na"
    and "nm = ''insert_content'' \<longrightarrow> k \<noteq> ''path'' \<and> k \<noteq> ''line'' \<and> k \<noteq> ''content''"
  shows "\<exists>na'. buildNativeArgs b nm (JObj (es1 @ (k, x) # es2)) = Inr na'"
proof (cases "nm = ''insert_content''")
  case True
  with assms(2) have k: "''path'' \<noteq> k" "''line'' \<noteq> k" "''content'' \<noteq> k"
    by auto
  have "buildNativeArgs b ''insert_content'' (JObj (es1 @ (k, x) # es2)) =
      buildNativeArgs b ''insert_content'' (JObj (es1 @ es2))"
    by (rule buildNativeArgs_insert_content_cong) (rule get_prop_other [OF k(1)],
        rule get_prop_other [OF k(2)], rule get_prop_other [OF k(3)])
  with assms(1) True show ?thesis by simp
next
  case False
  then show ?thesis by (rule buildNativeArgs_ok)
qed


lemma synthesizeParams_untyped_keys:
  "synthesizeParams_untyped b tpn es ps = Inr qs \<Longrightarrow>
   fst ` set qs \<subseteq> fst ` set ps \<union> {k \<in> fst ` set es. k \<in> set tpn}"
proof (induction es arbitrary: ps)
  case Nil
  then show ?case by simp
next
  case (Cons kv es)
  obtain k v where kv: "kv = (k, v)" by (cases kv)
  show ?case
  proof (cases "k \<notin> set tpn")
    case True
    with Cons.prems kv have "synthesizeParams_untyped b tpn es ps = Inr qs" by simp
    from Cons.IH [OF this] show ?thesis by (auto simp add: kv)
  next
    case False
    with Cons.prems kv obtain sv where
      rest: "synthesizeParams_untyped b tpn es (AList.update k sv ps) = Inr qs"
      by (auto split: sum.splits)
    from Cons.IH [OF rest] False show ?thesis
      by (auto simp add: kv AList.dom_update)
  qed
qed

lemma synthesizeParams_untyped_append:
  "synthesizeParams_untyped b tpn (es1 @ es2) ps =
     (case synthesizeParams_untyped b tpn es1 ps of
        Inl e \<Rightarrow> Inl e
      | Inr qs \<Rightarrow> synthesizeParams_untyped b tpn es2 qs)"
  by (induction es1 arbitrary: ps) (auto split: sum.splits)

lemma synthesizeParams_untyped_unknown:
  "k \<notin> set tpn \<Longrightarrow>
   synthesizeParams_untyped b tpn (es1 @ (k, x) # es2) ps =
     synthesizeParams_untyped b tpn (es1 @ es2) ps"
  by (simp add: synthesizeParams_untyped_append split: sum.splits)

lemma parseToolCall_untyped_Some:
  "parseToolCall_untyped b tn tpn c = Inr (Some u) \<Longrightarrow>
   toolCall_name c \<in> set tn \<and>
   (\<exists>args es. JSON_parse b (toolCall_arguments c) = Inr args \<and> Object_entries args = Inr es \<and>
      synthesizeParams_untyped b tpn es [] = Inr (params u))"
  by (auto simp add: parseToolCall_untyped_def failedToParse_not_Some split: if_splits sum.splits)

lemma parseToolCall_untyped_object:
  "toolCall_name c \<in> set tn \<Longrightarrow> JSON_parse b (toolCall_arguments c) = Inr (JObj es) \<Longrightarrow>
   synthesizeParams_untyped b tpn es [] = Inr qs \<Longrightarrow>
   parseToolCall_untyped b tn tpn c =
     Inr (Some \<lparr>type = ''tool_use'', name = toolCall_name c, params = qs, partial = False,
                nativeArgs = None\<rparr>)"
  by (simp add: parseToolCall_untyped_def)

lemma unknown_parameter_typed:
  assumes "k \<notin> set tpn"
  shows "(parseToolCall b tn tpn c = Inr (Some u) \<longrightarrow> k \<notin> fst ` set (params u))
       \<and> (set [''path'', ''line'', ''content''] \<subseteq> set tpn \<longrightarrow>
            toolCall_name c' = toolCall_name c \<longrightarrow>
            JSON_parse b (toolCall_arguments c) = Inr (JObj (es1 @ (k, x) # es2)) \<longrightarrow>
            JSON_parse b (toolCall_arguments c') = Inr (JObj (es1 @ es2)) \<longrightarrow>
            parseToolCall b tn tpn c' = Inr (Some u') \<longrightarrow>
            (\<exists>w. parseToolCall b tn tpn c = Inr (Some w) \<and> params w = params u'))"
proof (intro conjI impI)
  assume p: "parseToolCall b tn tpn c = Inr (Some u)"
  from parseToolCall_Some [OF p] obtain args where
    "toolUseOfArgs b tpn (toolCall_name c) args = Inr u" by blast
  from toolUseOfArgs_Inr [OF this] obtain es qs where
    "synthesizeParams b tpn (toolCall_name c) es [] = Inr qs" and "params u = qs" by auto
  then show "k \<notin> fst ` set (params u)"
    using synthesizeParams_keys [of b tpn "toolCall_name c" es "[]" qs] assms by auto
next
  assume known: "set [''path'', ''line'', ''content''] \<subseteq> set tpn"
    and nm: "toolCall_name c' = toolCall_name c"
    and js: "JSON_parse b (toolCall_arguments c) = Inr (JObj (es1 @ (k, x) # es2))"
    and js': "JSON_parse b (toolCall_arguments c') = Inr (JObj (es1 @ es2))"
    and p': "parseToolCall b tn tpn c' = Inr (Some u')"
  from parseToolCall_Some [OF p'] js' nm have valid: "toolCall_name c \<in> set tn"
    and tu': "toolUseOfArgs b tpn (toolCall_name c) (JObj (es1 @ es2)) = Inr u'"
    by auto
  from toolUseOfArgs_Inr [OF tu'] obtain qs na where
    qs: "synthesizeParams b tpn (toolCall_name c) (es1 @ es2) [] = Inr qs"
    and na: "buildNativeArgs b (toolCall_name c) (JObj (es1 @ es2)) = Inr na"
    and u': "params u' = qs"
    by auto
  from known assms have "k \<noteq> ''path'' \<and> k \<noteq> ''line'' \<and> k \<noteq> ''content''" by auto
  with buildNativeArgs_unknown_key [OF na, of k x] obtain na' where
    na': "buildNativeArgs b (toolCall_name c) (JObj (es1 @ (k, x) # es2)) = Inr na'"
    by blast
  have qs': "synthesizeParams b tpn (toolCall_name c) (es1 @ (k, x) # es2) [] = Inr qs"
    using synthesizeParams_unknown [OF assms] qs by simp
  have "parseToolCall b tn tpn c =
      Inr (Some \<lparr>type = ''tool_use'', name = toolCall_name c, params = qs,
                 partial = False, nativeArgs = na'\<rparr>)"
    using parseToolCall_ok [OF valid js toolUseOfArgs_ok [OF _ qs' na']] by simp
  then show "\<exists>w. parseToolCall b tn tpn c = Inr (Some w) \<and> params w = params u'"
    using u' by simp
qed

lemma unknown_parameter_untyped:
  assumes "k \<notin> set tpn"
  shows "(parseToolCall_untyped b tn tpn c = Inr (Some u) \<longrightarrow> k \<notin> fst ` set (params u))
       \<and> (toolCall_name c' = toolCall_name c \<longrightarrow>
            JSON_parse b (toolCall_arguments c) = Inr (JObj (es1 @ (k, x) # es2)) \<longrightarrow>
            JSON_parse b (toolCall_arguments c') = Inr (JObj (es1 @ es2)) \<longrightarrow>
            parseToolCall_untyped b tn tpn c' = Inr (Some u') \<longrightarrow>
            (\<exists>w. parseToolCall_untyped b tn tpn c = Inr (Some w) \<and> params w = params u'))"
proof (intro conjI impI)
  assume "parseToolCall_untyped b tn tpn c = Inr (Some u)"
  from parseToolCall_untyped_Some [OF this] obtain es where
    "synthesizeParams_untyped b tpn es [] = Inr (params u)" by blast
  from synthesizeParams_untyped_keys [OF this] show "k \<notin> fst ` set (params u)"
    using assms by auto
next
  assume nm: "toolCall_name c' = toolCall_name c"
    and js: "JSON_parse b (toolCall_arguments c) = Inr (JObj (es1 @ (k, x) # es2))"
    and js': "JSON_parse b (toolCall_arguments c') = Inr (JObj (es1 @ es2))"
    and p': "parseToolCall_untyped b tn tpn c' = Inr (Some u')"
  from parseToolCall_untyped_Some [OF p'] js' nm have valid: "toolCall_name c \<in> set tn"
    and qs: "synthesizeParams_untyped b tpn (es1 @ es2) [] = Inr (params u')"
    by auto
  have "synthesizeParams_untyped b tpn (es1 @ (k, x) # es2) [] = Inr (params u')"
    using synthesizeParams_untyped_unknown [OF assms] qs by simp
  from parseToolCall_untyped_object [OF valid js this]
  show "\<exists>w. parseToolCall_untyped b tn tpn c = Inr (Some w) \<and> params w = params u'"
    by simp
qed

text \<open>
  C7. A key outside \<open>toolParamNames\<close> is in the legacy parameters of no returned
  invocation. Its presence does not cause rejection: when the call without the key is
  accepted, the call with the key (at any place among the others) is accepted too, with the
  same legacy parameters. Here \<open>path\<close>, \<open>line\<close> and \<open>content\<close>, which the
  \<open>insert_content\<close> conversion reads, are taken to be parameter names. The same two
  statements hold of the parser that builds no \<open>nativeArgs\<close>.
\<close>

theorem unknown_parameter_dropped:
  assumes "k \<notin> set tpn"
  shows "(parseToolCall b tn tpn c = Inr (Some u) \<longrightarrow> k \<notin> fst ` set (params u))
       \<and> (set [''path'', ''line'', ''content''] \<subseteq> set tpn \<longrightarrow>
            toolCall_name c' = toolCall_name c \<longrightarrow>
            JSON_parse b (toolCall_arguments c) = Inr (JObj (es1 @ (k, x) # es2)) \<longrightarrow>
            JSON_parse b (toolCall_arguments c') = Inr (JObj (es1 @ es2)) \<longrightarrow>
            parseToolCall b tn tpn c' = Inr (Some u') \<longrightarrow>
            (\<exists>w. parseToolCall b tn tpn c = Inr (Some w) \<and> params w = params u'))
       \<and> (parseToolCall_untyped b tn tpn c = Inr (Some u) \<longrightarrow> k \<notin> fst ` set (params u))
       \<and> (toolCall_name c' = toolCall_name c \<longrightarrow>
            JSON_parse b (toolCall_arguments c) = Inr (JObj (es1 @ (k, x) # es2)) \<longrightarrow>
            JSON_parse b (toolCall_arguments c') = Inr (JObj (es1 @ es2)) \<longrightarrow>
            parseToolCall_untyped b tn tpn c' = Inr (Some u') \<longrightarrow>
            (\<exists>w. parseToolCall_untyped b tn tpn c = Inr (Some w) \<and> params w = params u'))"
  using unknown_parameter_typed [OF assms, of b tn c u c' es1 x es2 u']
    unknown_parameter_untyped [OF assms, of b tn c u c' es1 x es2 u']
  by blast

theorem unknown_parameter_dropped_witness:
  "parseToolCall runtime example_toolNames example_toolParamNames
     \<lparr>toolCall_id = ''call_1'', toolCall_name = ''list_files'',
      toolCall_arguments = ''{\"path\": \"src\", \"colour\": \"red\", \"recursive\": false}''\<rparr>
   = Inr (Some \<lparr>type = ''tool_use'', name = ''list_files'',
                 params = [(''path'', ''src''), (''recursive'', ''false'')],
                 partial = False, nativeArgs = None\<rparr>)
   \<and> parseToolCall_untyped runtime example_toolNames example_toolParamNames
     \<lparr>toolCall_id = ''call_1'', toolCall_name = ''list_files'',
      toolCall_arguments = ''{\"path\": \"src\", \"colour\": \"red\", \"recursive\": false}''\<rparr>
   = Inr (Some \<lparr>type = ''tool_use'', name = ''list_files'',
                 params = [(''path'', ''src''), (''recursive'', ''false'')],
                 partial = False, nativeArgs = None\<rparr>)
   \<and> ''colour'' \<notin> set example_toolParamNames
   \<and> ''colour'' \<notin> fst ` set [(''path'', ''src''), (''recursive'', ''false'')]"
proof -
  let ?c = "\<lparr>toolCall_id = ''call_1'', toolCall_name = ''list_files'',
      toolCall_arguments = ''{\"path\": \"src\", \"colour\": \"red\", \"recursive\": false}''\<rparr>"
  let ?c' = "\<lparr>toolCall_id = ''call_1'', toolCall_name = ''list_files'',
      toolCall_arguments = ''{\"path\": \"src\", \"recursive\": false}''\<rparr>"
  let ?u' = "\<lparr>type = ''tool_use'', name = ''list_files'',
                 params = [(''path'', ''src''), (''recursive'', ''false'')],
                 partial = False, nativeArgs = (None :: jsval option)\<rparr>"
  have 1: "''colour'' \<notin> set example_toolParamNames"
    and 2: "set [''path'', ''line'', ''content''] \<subseteq> set example_toolParamNames"
    by (simp_all add: example_toolParamNames_def)
  have 3: "toolCall_name ?c' = toolCall_name ?c" by simp
  have 4: "JSON_parse runtime (toolCall_arguments ?c) =
      Inr (JObj ([(''path'', JStr ''src'')] @ (''colour'', JStr ''red'') # [(''recursive'', JBool False)]))"
    by code_simp
  have 5: "JSON_parse runtime (toolCall_arguments ?c') =
      Inr (JObj ([(''path'', JStr ''src'')] @ [(''recursive'', JBool False)]))"
    by code_simp
  have 6: "parseToolCall runtime example_toolNames example_toolParamNames ?c' = Inr (Some ?u')"
    by code_simp
  have 7: "parseToolCall runtime example_toolNames example_toolParamNames ?c = Inr (Some ?u')"
    by code_simp
  have 8: "parseToolCall_untyped runtime example_toolNames example_toolParamNames ?c
      = Inr (Some ?u')"
    by code_simp
  have 9: "parseToolCall_untyped runtime example_toolNames example_toolParamNames ?c'
      = Inr (Some ?u')"
    by code_simp
  note dropped = unknown_parameter_dropped [OF 1, where b = runtime and tn = example_toolNames
      and c = ?c and c' = ?c' and u = ?u' and u' = ?u' and ?es1.0 = "[(''path'', JStr ''src'')]"
      and x = "JStr ''red''" and ?es2.0 = "[(''recursive'', JBool False)]"]
  from dropped [THEN conjunct1, rule_format, OF 7]
  have absent: "''colour'' \<notin> fst ` set (params ?u')" .
  from dropped [THEN conjunct2, THEN conjunct1, rule_format, OF 2 3 4 5 6]
  have "\<exists>w. parseToolCall runtime example_toolNames example_toolParamNames ?c = Inr (Some w)
           \<and> params w = params ?u'" .
  moreover
  from dropped [THEN conjunct2, THEN conjunct2, THEN conjunct2, rule_format, OF 3 4 5 9]
  have "\<exists>w. parseToolCall_untyped runtime example_toolNames example_toolParamNames ?c
              = Inr (Some w) \<and> params w = params ?u'" .
  ultimately show ?thesis using absent 7 8 1 by simp
qed

text \<open>
  C10, amended. For \<open>attempt_completion\<close> (required field \<open>result\<close>) and
  \<open>execute_command\<close> (required field \<open>command\<close>) and arguments that decode to an object,
  every invocation the parser returns has \<open>nativeArgs\<close> exactly when the required field is
  truthy. When the field is present and is the empty string, the returned invocation has
  \<open>nativeArgs\<close> \<open>undefined\<close>, and \<open>handle\<close> on it starts by calling \<open>parseLegacy\<close>
  on its legacy parameters. An invocation is returned whenever \<open>JSON.stringify\<close> returns
  on the values under parameter names that are not strings.
\<close>

theorem falsy_required_field_falls_back:
  assumes "(nm, key) = (''attempt_completion'', ''result'') \<or> (nm, key) = (''execute_command'', ''command'')"
    and "toolCall_name c = nm" and "nm \<in> set tn"
    and "JSON_parse b (toolCall_arguments c) = Inr (JObj kvs)"
  shows "(\<forall>u. parseToolCall b tn tpn c = Inr (Some u) \<longrightarrow>
            (nativeArgs u \<noteq> None \<longleftrightarrow> truthy (get_prop (JObj kvs) key))
          \<and> (map_of kvs key = Some (JStr []) \<longrightarrow>
                nativeArgs u = None
                \<and> take 1 (calls_of (handle b (recorded t) (recorded_callbacks cb) u ([], s))) =
                    [Called_parseLegacy (params u)]))
       \<and> ((\<forall>k x. (k, x) \<in> set kvs \<longrightarrow> k \<in> set tpn \<longrightarrow> (\<exists>out. stringValue b x = Inr out)) \<longrightarrow>
            (\<exists>u. parseToolCall b tn tpn c = Inr (Some u)))"
proof (intro conjI allI impI)
  define na where "na = (if truthy (get_prop (JObj kvs) key)
     then Some (if nm = ''attempt_completion'' then JObj [(''result'', get_prop (JObj kvs) ''result'')]
                else JObj [(''command'', get_prop (JObj kvs) ''command''),
                           (''cwd'', get_prop (JObj kvs) ''cwd'')])
     else None)"
  have bn: "buildNativeArgs b nm (JObj kvs) = Inr na"
  proof (cases "nm = ''attempt_completion''")
    case True
    with assms(1) have "key = ''result''" by simp
    with True show ?thesis by (simp add: buildNativeArgs_def na_def)
  next
    case False
    with assms(1) have "nm = ''execute_command''" "key = ''command''" by simp_all
    then show ?thesis by (simp add: buildNativeArgs_def na_def)
  qed
  {
    fix u
    assume p: "parseToolCall b tn tpn c = Inr (Some u)"
    from parseToolCall_Some [OF p] assms(2,4)
    have "toolUseOfArgs b tpn nm (JObj kvs) = Inr u" by auto
    from toolUseOfArgs_Inr [OF this] bn have u: "nativeArgs u = na" "\<not> partial u" by auto
    show t: "nativeArgs u \<noteq> None \<longleftrightarrow> truthy (get_prop (JObj kvs) key)"
      by (simp add: u na_def)
    assume e: "map_of kvs key = Some (JStr [])"
    then show n: "nativeArgs u = None" by (simp add: u na_def)
    show "take 1 (calls_of (handle b (recorded t) (recorded_callbacks cb) u ([], s))) =
        [Called_parseLegacy (params u)]"
      by (rule handle_legacy_first_call [OF u(2) n])
  }
  assume "\<forall>k x. (k, x) \<in> set kvs \<longrightarrow> k \<in> set tpn \<longrightarrow> (\<exists>out. stringValue b x = Inr out)"
  then obtain qs where qs: "synthesizeParams b tpn nm kvs [] = Inr qs"
    using synthesizeParams_ok [of kvs tpn nm b "[]"] by blast
  have "toolUseOfArgs b tpn nm (JObj kvs) =
      Inr \<lparr>type = ''tool_use'', name = nm, params = qs, partial = False, nativeArgs = na\<rparr>"
    by (rule toolUseOfArgs_ok [OF _ qs bn]) simp
  with assms(2,3,4) show "\<exists>u. parseToolCall b tn tpn c = Inr (Some u)"
    by (simp add: parseToolCall_ok)
qed

text \<open>
  C10 as stated fails: with \<open>result\<close> present and empty and an array nested 10000 deep
  under \<open>command\<close>, the parser returns \<open>null\<close>, not an invocation.
\<close>

theorem empty_required_field_rejected_counterexample:
  "''attempt_completion'' \<in> set example_toolNames
   \<and> JSON_parse runtime (''{\"result\":\"\",\"command\":'' @ nested_text 10000 @ ''}'')
       = Inr (JObj [(''result'', JStr []), (''command'', nested 10000)])
   \<and> parseToolCall runtime example_toolNames example_toolParamNames
       \<lparr>toolCall_id = ''call_1'', toolCall_name = ''attempt_completion'',
        toolCall_arguments = ''{\"result\":\"\",\"command\":'' @ nested_text 10000 @ ''}''\<rparr>
     = Inr None"
proof (intro conjI)
  show "''attempt_completion'' \<in> set example_toolNames"
    by (simp add: example_toolNames_def)
  show "JSON_parse runtime (''{\"result\":\"\",\"command\":'' @ nested_text 10000 @ ''}'')
       = Inr (JObj [(''result'', JStr []), (''command'', nested 10000)])"
    using read_json_result_command_nested [of 10000] by (simp add: runtime_def)
  show "parseToolCall runtime example_toolNames example_toolParamNames
       \<lparr>toolCall_id = ''call_1'', toolCall_name = ''attempt_completion'',
        toolCall_arguments = ''{\"result\":\"\",\"command\":'' @ nested_text 10000 @ ''}''\<rparr>
     = Inr None"
    by (rule parseToolCall_deep_argument)
qed

theorem falsy_required_field_falls_back_witness:
  "parseToolCall runtime example_toolNames example_toolParamNames
     \<lparr>toolCall_id = ''call_1'', toolCall_name = ''attempt_completion'',
      toolCall_arguments = ''{\"result\": \"\"}''\<rparr>
   = Inr (Some \<lparr>type = ''tool_use'', name = ''attempt_completion'', params = [(''result'', [])],
                 partial = False, nativeArgs = None\<rparr>)
   \<and> take 1 (calls_of (handle runtime (recorded example_completion_tool)
        (recorded_callbacks example_callbacks)
        \<lparr>type = ''tool_use'', name = ''attempt_completion'', params = [(''result'', [])],
         partial = False, nativeArgs = None\<rparr> ([], []))) = [Called_parseLegacy [(''result'', [])]]"
proof -
  let ?c = "\<lparr>toolCall_id = ''call_1'', toolCall_name = ''attempt_completion'',
      toolCall_arguments = ''{\"result\": \"\"}''\<rparr>"
  let ?u = "\<lparr>type = ''tool_use'', name = ''attempt_completion'', params = [(''result'', [])],
                 partial = False, nativeArgs = (None :: jsval option)\<rparr>"
  have 1: "(''attempt_completion'', ''result'') = (''attempt_completion'', ''result'')
        \<or> (''attempt_completion'', ''result'') = (''execute_command'', ''command'')"
    by simp
  have 2: "toolCall_name ?c = ''attempt_completion''" by simp
  have 3: "''attempt_completion'' \<in> set example_toolNames"
    by (simp add: example_toolNames_def)
  have 4: "JSON_parse runtime (toolCall_arguments ?c) = Inr (JObj [(''result'', JStr [])])"
    by code_simp
  have 5: "\<forall>k x. (k, x) \<in> set [(''result'', JStr [])] \<longrightarrow> k \<in> set example_toolParamNames \<longrightarrow>
             (\<exists>out. stringValue runtime x = Inr out)"
    by (simp add: stringValue_JStr)
  have 6: "map_of [(''result'', JStr [])] ''result'' = Some (JStr [])" by simp
  have 7: "parseToolCall runtime example_toolNames example_toolParamNames ?c = Inr (Some ?u)"
    by code_simp
  note fb = falsy_required_field_falls_back [OF 1 2 3 4, where tpn = example_toolParamNames
      and t = example_completion_tool and cb = example_callbacks and s = "[]"]
  from fb 5
  have "\<exists>u. parseToolCall runtime example_toolNames example_toolParamNames ?c = Inr (Some u)"
    by blast
  moreover
  from fb 7 6
  have "nativeArgs ?u = None
      \<and> take 1 (calls_of (handle runtime (recorded example_completion_tool)
          (recorded_callbacks example_callbacks) ?u ([], []))) = [Called_parseLegacy (params ?u)]"
    by blast
  ultimately show ?thesis using 7 by simp
qed

section \<open>The concrete tools\<close>








text \<open>
  C9 as stated fails: with the required \<open>path\<close> (\<open>result\<close>, \<open>message\<close>) absent,
  \<open>parseLegacy\<close> returns parameters in which it is the empty string.
\<close>

theorem parseLegacy_missing_required_counterexample:
  "map_of [(''recursive'', ''true'')] ''path'' = None
   \<and> ListFilesTool_parseLegacy [(''recursive'', ''true'')] = Inr \<lparr>path = [], recursive = Some True\<rparr>
   \<and> AttemptCompletionTool_parseLegacy [] = Inr \<lparr>result = [], command = None\<rparr>
   \<and> NewTaskTool_parseLegacy [(''mode'', ''code'')] = Inr \<lparr>mode = ''code'', message = [], todos = None\<rparr>"
  by code_simp

text \<open>
  C9, amended. For each of the three tools and every legacy parameter map, \<open>parseLegacy\<close>
  returns typed parameters and never fails: a required parameter that is absent or empty
  is the empty string in them, and one that is given is passed on unchanged.
\<close>

theorem parseLegacy_defaults:
  "(\<exists>p. ListFilesTool_parseLegacy ps = Inr p
        \<and> (map_of ps ''path'' = None \<or> map_of ps ''path'' = Some [] \<longrightarrow> path p = [])
        \<and> (\<forall>s. s \<noteq> [] \<longrightarrow> map_of ps ''path'' = Some s \<longrightarrow> path p = s))
   \<and> (\<exists>p. AttemptCompletionTool_parseLegacy ps = Inr p
        \<and> (map_of ps ''result'' = None \<or> map_of ps ''result'' = Some [] \<longrightarrow> result p = [])
        \<and> (\<forall>s. s \<noteq> [] \<longrightarrow> map_of ps ''result'' = Some s \<longrightarrow> result p = s))
   \<and> (\<exists>p. NewTaskTool_parseLegacy ps = Inr p
        \<and> (map_of ps ''mode'' = None \<or> map_of ps ''mode'' = Some [] \<longrightarrow> mode p = [])
        \<and> (map_of ps ''message'' = None \<or> map_of ps ''message'' = Some [] \<longrightarrow> message p = [])
        \<and> (\<forall>s. s \<noteq> [] \<longrightarrow> map_of ps ''mode'' = Some s \<longrightarrow> mode p = s)
        \<and> (\<forall>s. s \<noteq> [] \<longrightarrow> map_of ps ''message'' = Some s \<longrightarrow> message p = s))"
  by (auto simp add: ListFilesTool_parseLegacy_def AttemptCompletionTool_parseLegacy_def
      NewTaskTool_parseLegacy_def)

theorem parseLegacy_defaults_witness:
  "(\<exists>p. ListFilesTool_parseLegacy [(''recursive'', ''true'')] = Inr p \<and> path p = [])
   \<and> (\<exists>p. AttemptCompletionTool_parseLegacy [(''result'', ''done'')] = Inr p \<and> result p = ''done'')
   \<and> (\<exists>p. NewTaskTool_parseLegacy [(''mode'', ''code''), (''message'', [])] = Inr p
          \<and> mode p = ''code'' \<and> message p = [])"
proof -
  have 1: "map_of [(''recursive'', ''true'')] ''path'' = None" by simp
  have 2: "map_of [(''result'', ''done'')] ''result'' = Some ''done''" by simp
  have 3: "map_of [(''mode'', ''code''), (''message'', [])] ''mode'' = Some ''code''"
    and 4: "map_of [(''mode'', ''code''), (''message'', [])] ''message'' = Some []" by simp_all
  from parseLegacy_defaults [of "[(''recursive'', ''true'')]"]
    parseLegacy_defaults [of "[(''result'', ''done'')]"]
    parseLegacy_defaults [of "[(''mode'', ''code''), (''message'', [])]"] 1 2 3 4
  show ?thesis by (metis list.distinct(1))
qed

end
